theory Spec2Isabelle
  imports Main "HOL-Library.Sublist" "HOL-Library.Product_Lexorder" "HOL-Library.Word"
begin

section \<open>Python strings\<close>

text \<open>
  A Python \<open>str\<close> is a sequence of Unicode code points, so it is modelled as a list of
  natural numbers; \<open>ascii\<close> embeds an ASCII literal.  The string methods used by
  \<open>memo_module.py\<close> follow: \<open>in\<close>, \<open>startswith\<close>, \<open>endswith\<close>, \<open>split\<close>,
  \<open>replace\<close> and \<open>os.path.join\<close> (POSIX flavour).
\<close>

type_synonym pystr = "nat list"

definition ascii :: "string \<Rightarrow> pystr" where
  "ascii s = map of_char s"

text \<open>\<open>k in t\<close>: \<open>k\<close> occurs in \<open>t\<close> as a contiguous substring.\<close>

fun contains :: "'a list \<Rightarrow> 'a list \<Rightarrow> bool" where
  "contains k [] = (k = [])"
| "contains k (c # cs) = (prefix k (c # cs) \<or> contains k cs)"

definition startswith :: "pystr \<Rightarrow> pystr \<Rightarrow> bool" where
  "startswith s p = prefix p s"

definition endswith :: "pystr \<Rightarrow> pystr \<Rightarrow> bool" where
  "endswith s p = prefix (rev p) (rev s)"

text \<open>\<open>s.split(sep)\<close> for a one-character separator; the result is never empty.\<close>

fun split :: "nat \<Rightarrow> pystr \<Rightarrow> pystr list" where
  "split sep [] = [[]]"
| "split sep (c # cs) =
     (if c = sep then [] # split sep cs
      else (case split sep cs of
              w # ws \<Rightarrow> (c # w) # ws
            | [] \<Rightarrow> [[c]]))"

text \<open>
  \<open>s.replace(old, new)\<close>: every non-overlapping occurrence of \<open>old\<close>, scanning from the
  left.  With an empty \<open>old\<close> Python inserts \<open>new\<close> before every character and at the end.
\<close>

function replace :: "pystr \<Rightarrow> pystr \<Rightarrow> pystr \<Rightarrow> pystr" where
  "replace old new s =
     (if old = [] then new @ concat (map (\<lambda>c. c # new) s)
      else if prefix old s then new @ replace old new (drop (length old) s)
      else (case s of [] \<Rightarrow> [] | c # cs \<Rightarrow> c # replace old new cs))"
  by pat_completeness auto
termination
  by (relation "measure (\<lambda>(old, new, s). length s)") (auto simp: prefix_def)

declare replace.simps [simp del]

text \<open>\<open>os.path.join(a, b)\<close> on POSIX, for two components.\<close>

definition os_path_join :: "pystr \<Rightarrow> pystr \<Rightarrow> pystr" where
  "os_path_join a b =
     (if startswith b (ascii ''/'') then b
      else if a = [] \<or> endswith a (ascii ''/'') then a @ b
      else a @ ascii ''/'' @ b)"

section \<open>VoiceRecognizer: command matching\<close>

datatype command = voice_memo | video_memo | stop

text \<open>
  \<open>VoiceRecognizer.COMMANDS\<close>, in the insertion order of the dictionary, which is the
  order \<open>items()\<close> iterates in; its three values are named.  The Korean keywords
  are given by code point: eumseong memo, eumseong nogeum, boiseu memo; yeongsang memo,
  yeongsang nokhwa, bidio memo, bidio nokhwa; jungji, seutap, geuman, kkeut.
\<close>

definition voice_keywords :: "pystr list" where
  "voice_keywords =
     [[0xC74C, 0xC131, 0x20, 0xBA54, 0xBAA8],
      [0xC74C, 0xC131, 0x20, 0xB179, 0xC74C],
      [0xBCF4, 0xC774, 0xC2A4, 0x20, 0xBA54, 0xBAA8],
      ascii ''voice memo'']"

definition video_keywords :: "pystr list" where
  "video_keywords =
     [[0xC601, 0xC0C1, 0x20, 0xBA54, 0xBAA8],
      [0xC601, 0xC0C1, 0x20, 0xB179, 0xD654],
      [0xBE44, 0xB514, 0xC624, 0x20, 0xBA54, 0xBAA8],
      [0xBE44, 0xB514, 0xC624, 0x20, 0xB179, 0xD654],
      ascii ''video memo'']"

definition stop_keywords :: "pystr list" where
  "stop_keywords =
     [[0xC911, 0xC9C0],
      [0xC2A4, 0xD0D1],
      [0xADF8, 0xB9CC],
      ascii ''stop'',
      [0xB05D]]"

definition COMMANDS :: "(command \<times> pystr list) list" where
  "COMMANDS =
     [(voice_memo, voice_keywords), (video_memo, video_keywords), (stop, stop_keywords)]"

text \<open>The inner loop over the keywords of one command, then the outer loop over the
  commands; the first hit returns.\<close>

fun match_keywords :: "command \<Rightarrow> pystr list \<Rightarrow> pystr \<Rightarrow> command option" where
  "match_keywords cmd_type [] text_lower = None"
| "match_keywords cmd_type (keyword # keywords) text_lower =
     (if contains keyword text_lower then Some cmd_type
      else match_keywords cmd_type keywords text_lower)"

fun match_items :: "(command \<times> pystr list) list \<Rightarrow> pystr \<Rightarrow> command option" where
  "match_items [] text_lower = None"
| "match_items ((cmd_type, keywords) # items) text_lower =
     (case match_keywords cmd_type keywords text_lower of
        Some c \<Rightarrow> Some c
      | None \<Rightarrow> match_items items text_lower)"

text \<open>
  \<open>str.lower\<close> is the Unicode-aware library function; it is a parameter of the model, so
  that what is proved holds for whatever it computes.  \<open>ascii_lower\<close> is its restriction
  to ASCII text, used to run examples.
\<close>

definition match_command :: "(pystr \<Rightarrow> pystr) \<Rightarrow> pystr \<Rightarrow> command option" where
  "match_command lower text = match_items COMMANDS (lower text)"

definition ascii_lower :: "pystr \<Rightarrow> pystr" where
  "ascii_lower s = map (\<lambda>c. if 65 \<le> c \<and> c \<le> 90 then c + 32 else c) s"

text \<open>The keyword set of a command, and the substring relation the claim speaks of.\<close>

definition keywords_of :: "command \<Rightarrow> pystr set" where
  "keywords_of cmd = (case map_of COMMANDS cmd of None \<Rightarrow> {} | Some keywords \<Rightarrow> set keywords)"

definition mentions :: "pystr \<Rightarrow> command \<Rightarrow> bool" where
  "mentions t cmd = (\<exists>k \<in> keywords_of cmd. \<exists>before after. t = before @ k @ after)"

section \<open>datetime.strptime for the format of the memo file names\<close>

text \<open>
  A naive \<open>datetime\<close> is the tuple (year, month, day, hour, minute, second, microsecond);
  Python compares two of them field by field, which is the lexicographic order on the
  tuple.

  \<open>datetime.strptime(s, "%Y%m%d_%H%M%S")\<close> compiles the format into the regular
  expression
  \<^verbatim>\<open>(\d\d\d\d)(1[0-2]|0[1-9]|[1-9])(3[0-1]|[1-2]\d|0[1-9]|[1-9]| [1-9])_\<close>
  \<^verbatim>\<open>(2[0-3]|[0-1]\d|\d)([0-5]\d|\d)(6[0-1]|[0-5]\d|\d)\<close>,
  takes the first match of a prefix of \<open>s\<close> in backtracking order, raises \<open>ValueError\<close>
  when there is none or when text remains after it, and then builds the date, which
  raises \<open>ValueError\<close> for year 0, for a day the month does not have and for a second
  above 59.  The model returns each group's matches in the order the alternatives are
  tried, so the head of \<open>format_regex_match\<close> is the match Python finds.  \<open>None\<close> stands
  for \<open>ValueError\<close>.  The class \<open>\d\<close> is taken as the ASCII digits.
\<close>

type_synonym datetime = "nat \<times> nat \<times> nat \<times> nat \<times> nat \<times> nat \<times> nat"

definition char_range :: "char \<Rightarrow> char \<Rightarrow> nat \<Rightarrow> bool" where
  "char_range lo hi c = (of_char lo \<le> c \<and> c \<le> of_char hi)"

definition digit :: "nat \<Rightarrow> bool" where
  "digit = char_range CHR ''0'' CHR ''9''"

definition one :: "char \<Rightarrow> nat \<Rightarrow> bool" where
  "one x c = (c = of_char x)"

fun chars :: "(nat \<Rightarrow> bool) list \<Rightarrow> pystr \<Rightarrow> (pystr \<times> pystr) list" where
  "chars [] s = [([], s)]"
| "chars (p # ps) [] = []"
| "chars (p # ps) (c # cs) =
     (if p c then map (\<lambda>(m, rest). (c # m, rest)) (chars ps cs) else [])"

text \<open>\<open>int\<close> of a matched group: the digits, a leading blank skipped.\<close>

definition int_of :: "pystr \<Rightarrow> nat" where
  "int_of s = foldl (\<lambda>n c. if digit c then 10 * n + (c - of_char CHR ''0'') else n) 0 s"

definition alternatives :: "(nat \<Rightarrow> bool) list list \<Rightarrow> pystr \<Rightarrow> (nat \<times> pystr) list" where
  "alternatives alts s =
     concat (map (\<lambda>alt. map (\<lambda>(m, rest). (int_of m, rest)) (chars alt s)) alts)"

definition re_Y :: "pystr \<Rightarrow> (nat \<times> pystr) list" where
  "re_Y = alternatives [[digit, digit, digit, digit]]"

definition re_m :: "pystr \<Rightarrow> (nat \<times> pystr) list" where
  "re_m = alternatives [[one CHR ''1'', char_range CHR ''0'' CHR ''2''],
                        [one CHR ''0'', char_range CHR ''1'' CHR ''9''],
                        [char_range CHR ''1'' CHR ''9'']]"

definition re_d :: "pystr \<Rightarrow> (nat \<times> pystr) list" where
  "re_d = alternatives [[one CHR ''3'', char_range CHR ''0'' CHR ''1''],
                        [char_range CHR ''1'' CHR ''2'', digit],
                        [one CHR ''0'', char_range CHR ''1'' CHR ''9''],
                        [char_range CHR ''1'' CHR ''9''],
                        [one CHR '' '', char_range CHR ''1'' CHR ''9'']]"

definition re_H :: "pystr \<Rightarrow> (nat \<times> pystr) list" where
  "re_H = alternatives [[one CHR ''2'', char_range CHR ''0'' CHR ''3''],
                        [char_range CHR ''0'' CHR ''1'', digit],
                        [digit]]"

definition re_M :: "pystr \<Rightarrow> (nat \<times> pystr) list" where
  "re_M = alternatives [[char_range CHR ''0'' CHR ''5'', digit], [digit]]"

definition re_S :: "pystr \<Rightarrow> (nat \<times> pystr) list" where
  "re_S = alternatives [[one CHR ''6'', char_range CHR ''0'' CHR ''1''],
                        [char_range CHR ''0'' CHR ''5'', digit],
                        [digit]]"

definition re_underscore :: "pystr \<Rightarrow> (nat \<times> pystr) list" where
  "re_underscore = alternatives [[one CHR ''_'']]"

definition format_regex_match ::
  "pystr \<Rightarrow> ((nat \<times> nat \<times> nat \<times> nat \<times> nat \<times> nat) \<times> pystr) list" where
  "format_regex_match s =
     [((Y, m, d, H, M, S), r7).
        (Y, r1) \<leftarrow> re_Y s, (m, r2) \<leftarrow> re_m r1, (d, r3) \<leftarrow> re_d r2,
        (u, r4) \<leftarrow> re_underscore r3,
        (H, r5) \<leftarrow> re_H r4, (M, r6) \<leftarrow> re_M r5, (S, r7) \<leftarrow> re_S r6]"

definition is_leap :: "nat \<Rightarrow> bool" where
  "is_leap y = (y mod 4 = 0 \<and> (y mod 100 \<noteq> 0 \<or> y mod 400 = 0))"

definition days_in_month :: "nat \<Rightarrow> nat \<Rightarrow> nat" where
  "days_in_month y m =
     (if m = 2 then (if is_leap y then 29 else 28)
      else if m = 4 \<or> m = 6 \<or> m = 9 \<or> m = 11 then 30 else 31)"

definition strptime :: "pystr \<Rightarrow> datetime option" where
  "strptime s =
     (case format_regex_match s of
        [] \<Rightarrow> None
      | ((Y, m, d, H, M, S), rest) # _ \<Rightarrow>
          if rest \<noteq> [] then None
          else if 1 \<le> Y \<and> 1 \<le> d \<and> d \<le> days_in_month Y m \<and> S \<le> 59
          then Some (Y, m, d, H, M, S, 0)
          else None)"

section \<open>MemoManager.get_all_memos\<close>

text \<open>
  The recording mode, which is also the \<open>"type"\<close> of a listed memo (\<open>"voice"\<close> or
  \<open>"video"\<close>).
\<close>

datatype mode = voice | video

text \<open>
  What the scan reads of one directory entry: its name from \<open>os.listdir\<close>, whether
  \<open>os.path.isfile\<close> holds, \<open>datetime.fromtimestamp(os.path.getmtime(..))\<close> and
  \<open>os.path.getsize\<close>.  The listing is \<open>None\<close> when the memo directory does not exist.
\<close>

record dirent =
  d_name :: pystr
  d_isfile :: bool
  d_mtime :: datetime
  d_size :: nat

text \<open>The dictionary appended for a memo; \<open>memo_type\<close> is its key \<open>"type"\<close> and \<open>fsize\<close>
  its key \<open>"size"\<close>.\<close>

record memo =
  filename :: pystr
  filepath :: pystr
  memo_type :: mode
  timestamp :: datetime
  fsize :: nat

text \<open>\<open>xs[i]\<close> for \<open>i \<ge> 0\<close>; \<open>None\<close> stands for \<open>IndexError\<close>.\<close>

definition nth_opt :: "'a list \<Rightarrow> nat \<Rightarrow> 'a option" where
  "nth_opt xs i = (if i < length xs then Some (xs ! i) else None)"

text \<open>
  The \<open>try\<close> block: \<open>filename.split("_")[2] + "_" + filename.split("_")[3].split(".")[0]\<close>
  parsed by \<open>strptime\<close>; \<open>None\<close> when \<open>IndexError\<close> or \<open>ValueError\<close> is raised.
\<close>

definition filename_timestamp :: "pystr \<Rightarrow> datetime option" where
  "filename_timestamp fname =
     (case nth_opt (split (of_char CHR ''_'') fname) 2 of
        None \<Rightarrow> None
      | Some date_part \<Rightarrow>
          (case nth_opt (split (of_char CHR ''_'') fname) 3 of
             None \<Rightarrow> None
           | Some time_part \<Rightarrow>
               strptime (date_part @ ascii ''_'' @ hd (split (of_char CHR ''.'') time_part))))"

definition classify :: "pystr \<Rightarrow> mode option" where
  "classify fname =
     (if startswith fname (ascii ''voice_memo'') \<and> endswith fname (ascii ''.wav'')
      then Some voice
      else if startswith fname (ascii ''video_memo'') \<and> endswith fname (ascii ''.mp4'')
      then Some video
      else None)"

text \<open>The loop over \<open>os.listdir(self.memo_dir)\<close>.\<close>

fun scan_dir :: "pystr \<Rightarrow> dirent list \<Rightarrow> memo list" where
  "scan_dir memo_dir [] = []"
| "scan_dir memo_dir (e # es) =
     (if \<not> d_isfile e then scan_dir memo_dir es
      else if contains (ascii ''_audio.wav'') (d_name e) then scan_dir memo_dir es
      else (case classify (d_name e) of
              None \<Rightarrow> scan_dir memo_dir es
            | Some t \<Rightarrow>
                \<lparr>filename = d_name e,
                 filepath = os_path_join memo_dir (d_name e),
                 memo_type = t,
                 timestamp = (case filename_timestamp (d_name e) of
                                Some ts \<Rightarrow> ts
                              | None \<Rightarrow> d_mtime e),
                 fsize = d_size e\<rparr> # scan_dir memo_dir es))"

text \<open>\<open>list.sort(key=.., reverse=True)\<close>: a stable sort of the reversed list, reversed.\<close>

definition sort_reverse :: "('a \<Rightarrow> 'k::linorder) \<Rightarrow> 'a list \<Rightarrow> 'a list" where
  "sort_reverse key xs = rev (sort_key key (rev xs))"

definition get_all_memos :: "pystr \<Rightarrow> dirent list option \<Rightarrow> memo list" where
  "get_all_memos memo_dir listing =
     (case listing of
        None \<Rightarrow> []
      | Some entries \<Rightarrow> sort_reverse timestamp (scan_dir memo_dir entries))"

text \<open>
  A directory for examples: a video memo, its sidecar, a voice memo, a voice memo whose
  name holds no time stamp, and a file that is no memo.
\<close>

definition example_listing :: "dirent list" where
  "example_listing =
     [\<lparr>d_name = ascii ''video_memo_20240101_120000_audio.wav'', d_isfile = True,
       d_mtime = (2024, 1, 1, 12, 0, 9, 0), d_size = 88244\<rparr>,
      \<lparr>d_name = ascii ''voice_memo_20231231_235959.wav'', d_isfile = True,
       d_mtime = (2024, 1, 1, 0, 0, 3, 0), d_size = 4140\<rparr>,
      \<lparr>d_name = ascii ''video_memo_20240101_120000.mp4'', d_isfile = True,
       d_mtime = (2024, 1, 1, 12, 0, 9, 0), d_size = 1048576\<rparr>,
      \<lparr>d_name = ascii ''voice_memo_draft.wav'', d_isfile = True,
       d_mtime = (2024, 2, 1, 8, 30, 0, 250000), d_size = 44\<rparr>,
      \<lparr>d_name = ascii ''notes.txt'', d_isfile = True,
       d_mtime = (2024, 3, 1, 0, 0, 0, 0), d_size = 12\<rparr>]"

section \<open>Files\<close>

text \<open>
  The file system maps a path to what lies there.  A WAV file is what \<open>wave\<close> writes:
  the three header parameters the recorder sets, the frame count the module declares
  in the header (the bytes written divided by the bytes of one frame), and the sample
  bytes.  A video file is the list of frames appended so far; of a frame only its shape
  is kept.  \<open>locked\<close> holds the paths on which opening for writing and removing fail
  with \<open>OSError\<close> (a directory, a read-only location); a failed operation leaves the
  file system as it was.
\<close>

type_synonym byte = "8 word"

record wav_file =
  nchannels :: nat
  sampwidth :: nat
  framerate :: nat
  nframes :: nat
  sample_data :: "byte list"

record frame =
  rows :: nat
  cols :: nat

datatype node = WavFile wav_file | VideoFile "frame list" | OtherFile

record filesystem =
  files :: "pystr \<rightharpoonup> node"
  locked :: "pystr set"

datatype exn = OSError

definition os_path_exists :: "filesystem \<Rightarrow> pystr \<Rightarrow> bool" where
  "os_path_exists fs p = (files fs p \<noteq> None)"

definition os_remove :: "filesystem \<Rightarrow> pystr \<Rightarrow> exn + filesystem" where
  "os_remove fs p =
     (if files fs p = None \<or> p \<in> locked fs then Inl OSError
      else Inr (fs\<lparr>files := (files fs)(p := None)\<rparr>))"

text \<open>\<open>wave.open(p, 'wb')\<close>, the three setters, \<open>writeframes(raw)\<close> and the close.\<close>

definition wave_write ::
  "filesystem \<Rightarrow> pystr \<Rightarrow> nat \<Rightarrow> nat \<Rightarrow> nat \<Rightarrow> byte list \<Rightarrow> exn + filesystem" where
  "wave_write fs p ch sw rate raw =
     (if p \<in> locked fs then Inl OSError
      else Inr (fs\<lparr>files := (files fs)(p \<mapsto>
             WavFile \<lparr>nchannels = ch, sampwidth = sw, framerate = rate,
                      nframes = length raw div (sw * ch), sample_data = raw\<rparr>)\<rparr>))"

section \<open>MemoManager.delete_memo\<close>

definition sidecar_path :: "pystr \<Rightarrow> pystr" where
  "sidecar_path p = replace (ascii ''.mp4'') (ascii ''_audio.wav'') p"

text \<open>
  The body of the \<open>try\<close>: it ends by \<open>return True\<close> (\<open>Inr (Some True)\<close>), by an exception
  of \<open>os.remove\<close> (\<open>Inl\<close>), or by falling through when the path does not exist
  (\<open>Inr None\<close>).  The file system is returned as it is at that point.
\<close>

definition delete_memo_try :: "filesystem \<Rightarrow> pystr \<Rightarrow> (exn + bool option) \<times> filesystem" where
  "delete_memo_try fs p =
     (if os_path_exists fs p then
        (case os_remove fs p of
           Inl e \<Rightarrow> (Inl e, fs)
         | Inr fs1 \<Rightarrow>
             (let audio_path = sidecar_path p in
              if os_path_exists fs1 audio_path then
                (case os_remove fs1 audio_path of
                   Inl e \<Rightarrow> (Inl e, fs1)
                 | Inr fs2 \<Rightarrow> (Inr (Some True), fs2))
              else (Inr (Some True), fs1)))
      else (Inr None, fs))"

text \<open>
  \<open>delete_memo\<close>: the handler \<open>except Exception\<close> prints and falls through to
  \<open>return False\<close>.  The result keeps the sum type, so that "no exception reaches the
  caller" is the statement that it is never \<open>Inl\<close>.
\<close>

definition delete_memo :: "filesystem \<Rightarrow> pystr \<Rightarrow> (exn + bool) \<times> filesystem" where
  "delete_memo fs p =
     (case delete_memo_try fs p of
        (Inl e, fs') \<Rightarrow> (Inr False, fs')
      | (Inr (Some b), fs') \<Rightarrow> (Inr b, fs')
      | (Inr None, fs') \<Rightarrow> (Inr False, fs'))"

text \<open>A memo directory holding one video memo and its sidecar, for examples.\<close>

definition video_and_sidecar :: filesystem where
  "video_and_sidecar =
     \<lparr>files = [ascii ''memos/video_memo_20240101_120000.mp4'' \<mapsto> VideoFile [],
               ascii ''memos/video_memo_20240101_120000_audio.wav'' \<mapsto>
                 WavFile \<lparr>nchannels = 1, sampwidth = 2, framerate = 44100, nframes = 1,
                          sample_data = [0, 0]\<rparr>],
      locked = {}\<rparr>"

text \<open>
  A memo directory whose own name contains \<open>.mp4\<close>, holding a video memo and its
  same-stem sidecar, beside a directory \<open>a_audio.wav\<close> holding a file of the sidecar's
  name, for examples.
\<close>

definition dotted_dir :: filesystem where
  "dotted_dir =
     \<lparr>files = [ascii ''a.mp4/video_memo_20240101_120000.mp4'' \<mapsto> VideoFile [],
               ascii ''a.mp4/video_memo_20240101_120000_audio.wav'' \<mapsto>
                 WavFile \<lparr>nchannels = 1, sampwidth = 2, framerate = 44100, nframes = 1,
                          sample_data = [0, 0]\<rparr>,
               ascii ''a_audio.wav/video_memo_20240101_120000_audio.wav'' \<mapsto> OtherFile],
      locked = {}\<rparr>"

section \<open>AudioRecorder\<close>

text \<open>
  The fields the two recorders share, then the audio recorder with its buffer
  \<open>_frames\<close>.  The module constant \<open>PYAUDIO_AVAILABLE\<close> and the formatted clock reading
  \<open>datetime.now().strftime("%Y%m%d_%H%M%S")\<close> are arguments.  The save directory is
  created by the constructors and is not modelled.
\<close>

record recorder =
  save_dir :: pystr
  is_recording :: bool
  current_file :: "pystr option"

record AudioRecorder = recorder +
  frames :: "byte list list"

definition AudioRecorder_init :: "pystr \<Rightarrow> AudioRecorder" where
  "AudioRecorder_init dir =
     \<lparr>save_dir = dir, is_recording = False, current_file = None, frames = []\<rparr>"

definition audio_start_recording ::
  "bool \<Rightarrow> pystr \<Rightarrow> AudioRecorder \<Rightarrow> pystr option \<times> AudioRecorder" where
  "audio_start_recording PYAUDIO_AVAILABLE now self =
     (if \<not> PYAUDIO_AVAILABLE then (None, self)
      else if is_recording self then (current_file self, self)
      else
        (let file = os_path_join (save_dir self) (ascii ''voice_memo_'' @ now @ ascii ''.wav'')
         in (Some file, self\<lparr>current_file := Some file, is_recording := True, frames := []\<rparr>)))"

text \<open>
  The background loop \<open>_record_loop\<close>: one turn of its \<open>while self.is_recording\<close> appends
  the chunk read from the device; its \<open>except\<close> branch clears \<open>is_recording\<close>.
\<close>

definition record_chunk :: "byte list \<Rightarrow> AudioRecorder \<Rightarrow> AudioRecorder" where
  "record_chunk data self =
     (if is_recording self then self\<lparr>frames := frames self @ [data]\<rparr> else self)"

definition record_failed :: "AudioRecorder \<Rightarrow> AudioRecorder" where
  "record_failed self = self\<lparr>is_recording := False\<rparr>"

text \<open>\<open>_save_wav\<close>: mono, two bytes a sample, 44100 Hz; an exception is printed and
  swallowed.\<close>

definition save_wav :: "AudioRecorder \<Rightarrow> filesystem \<Rightarrow> filesystem" where
  "save_wav self fs =
     (case current_file self of
        None \<Rightarrow> fs
      | Some p \<Rightarrow>
          (case wave_write fs p 1 2 44100 (concat (frames self)) of
             Inl e \<Rightarrow> fs
           | Inr fs' \<Rightarrow> fs'))"

text \<open>Truth value of an optional string: \<open>None\<close> and the empty string are false.\<close>

definition truthy :: "pystr option \<Rightarrow> bool" where
  "truthy s = (case s of None \<Rightarrow> False | Some p \<Rightarrow> p \<noteq> [])"

definition audio_stop_recording ::
  "AudioRecorder \<times> filesystem \<Rightarrow> pystr option \<times> AudioRecorder \<times> filesystem" where
  "audio_stop_recording = (\<lambda>(self, fs).
     if \<not> is_recording self then (None, self, fs)
     else
       (let self1 = self\<lparr>is_recording := False\<rparr> in
        if frames self1 \<noteq> [] \<and> truthy (current_file self1)
        then (current_file self1, self1, save_wav self1 fs)
        else (None, self1, fs)))"

text \<open>
  An audio session: a start with the backend available, the chunks the record loop
  appends, in order, and the stop.
\<close>

definition audio_session ::
  "pystr \<Rightarrow> byte list list \<Rightarrow> AudioRecorder \<times> filesystem
     \<Rightarrow> pystr option \<times> AudioRecorder \<times> filesystem" where
  "audio_session now chunks = (\<lambda>(self, fs).
     audio_stop_recording (fold record_chunk chunks (snd (audio_start_recording True now self)), fs))"

section \<open>VideoRecorder\<close>

text \<open>
  \<open>cv2.VideoWriter\<close>: the constructor opens the container and creates the file; when
  it cannot, the object exists but is not opened, and writing to it does nothing.  No
  exception is raised.
\<close>

record VideoWriter =
  vw_filename :: pystr
  vw_opened :: bool

record VideoRecorder = recorder +
  video_writer :: "VideoWriter option"
  vr_audio_recorder :: "AudioRecorder option"
  frame_size :: "nat \<times> nat"

definition VideoRecorder_init :: "pystr \<Rightarrow> VideoRecorder" where
  "VideoRecorder_init dir =
     \<lparr>save_dir = dir, is_recording = False, current_file = None,
      video_writer = None, vr_audio_recorder = None, frame_size = (640, 480)\<rparr>"

definition VideoWriter_open :: "pystr \<Rightarrow> filesystem \<Rightarrow> VideoWriter \<times> filesystem" where
  "VideoWriter_open p fs =
     (if p \<in> locked fs then (\<lparr>vw_filename = p, vw_opened = False\<rparr>, fs)
      else (\<lparr>vw_filename = p, vw_opened = True\<rparr>,
            fs\<lparr>files := (files fs)(p \<mapsto> VideoFile [])\<rparr>))"

definition VideoWriter_write :: "VideoWriter \<Rightarrow> frame \<Rightarrow> filesystem \<Rightarrow> filesystem" where
  "VideoWriter_write w f fs =
     (if vw_opened w then
        (case files fs (vw_filename w) of
           Some (VideoFile fr) \<Rightarrow>
             fs\<lparr>files := (files fs)(vw_filename w \<mapsto> VideoFile (fr @ [f]))\<rparr>
         | _ \<Rightarrow> fs)
      else fs)"

text \<open>
  \<open>VideoRecorder.start_recording\<close>.  The clock is read twice, once for the video file
  name and once inside the audio recorder's own \<open>start_recording\<close>.
\<close>

definition video_start_recording ::
  "bool \<Rightarrow> (nat \<times> nat) option \<Rightarrow> pystr \<Rightarrow> pystr \<Rightarrow> VideoRecorder \<times> filesystem
     \<Rightarrow> pystr option \<times> VideoRecorder \<times> filesystem" where
  "video_start_recording PYAUDIO_AVAILABLE size_arg now now_audio = (\<lambda>(self, fs).
     if is_recording self then (current_file self, self, fs)
     else
       (let self1 = (case size_arg of None \<Rightarrow> self | Some sz \<Rightarrow> self\<lparr>frame_size := sz\<rparr>);
            file = os_path_join (save_dir self1) (ascii ''video_memo_'' @ now @ ascii ''.mp4'');
            (writer, fs1) = VideoWriter_open file fs;
            audio_file = replace (ascii ''.mp4'') (ascii ''_audio.wav'') file;
            rec0 = (AudioRecorder_init (save_dir self1))\<lparr>current_file := Some audio_file\<rparr>;
            rec1 = (if PYAUDIO_AVAILABLE
                    then snd (audio_start_recording PYAUDIO_AVAILABLE now_audio rec0)
                    else rec0)
        in (Some file,
            self1\<lparr>current_file := Some file, video_writer := Some writer,
                  vr_audio_recorder := Some rec1, is_recording := True\<rparr>,
            fs1)))"

text \<open>
  Of a frame only the shape is kept, so \<open>cv2.resize\<close> is total here (the library
  raises on an empty frame) and the writer appends every frame it is handed (the
  library drops a frame whose channel count does not fit).
\<close>

definition cv2_resize :: "frame \<Rightarrow> nat \<times> nat \<Rightarrow> frame" where
  "cv2_resize f sz = \<lparr>rows = snd sz, cols = fst sz\<rparr>"

definition write_frame ::
  "frame \<Rightarrow> VideoRecorder \<times> filesystem \<Rightarrow> VideoRecorder \<times> filesystem" where
  "write_frame f = (\<lambda>(self, fs).
     (case video_writer self of
        Some w \<Rightarrow>
          if is_recording self then
            (let f1 = (if cols f \<noteq> fst (frame_size self) \<or> rows f \<noteq> snd (frame_size self)
                       then cv2_resize f (frame_size self) else f)
             in (self, VideoWriter_write w f1 fs))
          else (self, fs)
      | None \<Rightarrow> (self, fs)))"

definition video_stop_recording ::
  "VideoRecorder \<times> filesystem \<Rightarrow> pystr option \<times> VideoRecorder \<times> filesystem" where
  "video_stop_recording = (\<lambda>(self, fs).
     if \<not> is_recording self then (None, self, fs)
     else
       (let self1 = self\<lparr>is_recording := False, video_writer := None\<rparr> in
        (case vr_audio_recorder self1 of
           None \<Rightarrow> (current_file self1, self1, fs)
         | Some r \<Rightarrow>
             (let (res, r1, fs1) = audio_stop_recording (r, fs)
              in (current_file self1, self1\<lparr>vr_audio_recorder := None\<rparr>, fs1)))))"

text \<open>
  What happens between start and stop of a video session: a frame is handed to
  \<open>write_frame\<close>, or the record loop of the companion audio recorder appends a chunk.
\<close>

datatype capture = Frame frame | Chunk "byte list"

fun video_capture ::
  "capture \<Rightarrow> VideoRecorder \<times> filesystem \<Rightarrow> VideoRecorder \<times> filesystem" where
  "video_capture (Frame f) (self, fs) = write_frame f (self, fs)"
| "video_capture (Chunk c) (self, fs) =
     (self\<lparr>vr_audio_recorder := map_option (record_chunk c) (vr_audio_recorder self)\<rparr>, fs)"

text \<open>A video session: the start, what is captured, in order, and the stop.\<close>

definition video_session ::
  "bool \<Rightarrow> (nat \<times> nat) option \<Rightarrow> pystr \<Rightarrow> pystr \<Rightarrow> capture list
     \<Rightarrow> VideoRecorder \<times> filesystem \<Rightarrow> pystr option \<times> VideoRecorder \<times> filesystem" where
  "video_session PYAUDIO_AVAILABLE size_arg now now_audio captured = (\<lambda>(self, fs).
     video_stop_recording
       (fold video_capture captured
          (snd (video_start_recording PYAUDIO_AVAILABLE size_arg now now_audio (self, fs)))))"

section \<open>SmartMirrorMemo\<close>

text \<open>
  The coordinator.  A callback field is either unset (\<open>None\<close>, here \<open>False\<close>) or set;
  a set callback is an observer that returns normally, and each call of it is appended
  to \<open>called\<close> with its arguments.
\<close>

datatype callback = on_start mode | on_stop mode "pystr option"

record SmartMirrorMemo =
  audio_recorder :: AudioRecorder
  video_recorder :: VideoRecorder
  current_mode :: "mode option"
  on_recording_start :: bool
  on_recording_stop :: bool
  called :: "callback list"

definition SmartMirrorMemo_init :: "pystr \<Rightarrow> SmartMirrorMemo" where
  "SmartMirrorMemo_init dir =
     \<lparr>audio_recorder = AudioRecorder_init dir, video_recorder = VideoRecorder_init dir,
      current_mode = None, on_recording_start = False, on_recording_stop = False,
      called = []\<rparr>"

definition start_voice_memo ::
  "bool \<Rightarrow> pystr \<Rightarrow> SmartMirrorMemo \<times> filesystem
     \<Rightarrow> pystr option \<times> SmartMirrorMemo \<times> filesystem" where
  "start_voice_memo PYAUDIO_AVAILABLE now = (\<lambda>(self, fs).
     if current_mode self \<noteq> None then (None, self, fs)
     else
       (let self1 = self\<lparr>current_mode := Some voice\<rparr>;
            (file, r) = audio_start_recording PYAUDIO_AVAILABLE now (audio_recorder self1);
            self2 = self1\<lparr>audio_recorder := r\<rparr>;
            self3 = (if on_recording_start self2
                     then self2\<lparr>called := called self2 @ [on_start voice]\<rparr> else self2)
        in (file, self3, fs)))"

definition start_video_memo ::
  "bool \<Rightarrow> (nat \<times> nat) option \<Rightarrow> pystr \<Rightarrow> pystr \<Rightarrow> SmartMirrorMemo \<times> filesystem
     \<Rightarrow> pystr option \<times> SmartMirrorMemo \<times> filesystem" where
  "start_video_memo PYAUDIO_AVAILABLE size_arg now now_audio = (\<lambda>(self, fs).
     if current_mode self \<noteq> None then (None, self, fs)
     else
       (let self1 = self\<lparr>current_mode := Some video\<rparr>;
            (file, r, fs1) = video_start_recording PYAUDIO_AVAILABLE size_arg now now_audio
                               (video_recorder self1, fs);
            self2 = self1\<lparr>video_recorder := r\<rparr>;
            self3 = (if on_recording_start self2
                     then self2\<lparr>called := called self2 @ [on_start video]\<rparr> else self2)
        in (file, self3, fs1)))"

definition stop_recording ::
  "SmartMirrorMemo \<times> filesystem \<Rightarrow> pystr option \<times> SmartMirrorMemo \<times> filesystem" where
  "stop_recording = (\<lambda>(self, fs).
     (case current_mode self of
        None \<Rightarrow> (None, self, fs)
      | Some m \<Rightarrow>
          (let (file, self1, fs1) =
                 (case m of
                    voice \<Rightarrow>
                      (let (res, r, fs') = audio_stop_recording (audio_recorder self, fs)
                       in (res, self\<lparr>audio_recorder := r\<rparr>, fs'))
                  | video \<Rightarrow>
                      (let (res, r, fs') = video_stop_recording (video_recorder self, fs)
                       in (res, self\<lparr>video_recorder := r\<rparr>, fs')));
               self2 = self1\<lparr>current_mode := None\<rparr>;
               self3 = (if on_recording_stop self2
                        then self2\<lparr>called := called self2 @ [on_stop m file]\<rparr> else self2)
           in (file, self3, fs1))))"

definition is_recording_memo :: "SmartMirrorMemo \<Rightarrow> bool" where
  "is_recording_memo self = (current_mode self \<noteq> None)"

text \<open>An empty file system, and a coordinator with both callbacks set, for examples.\<close>

definition empty_fs :: filesystem where
  "empty_fs = \<lparr>files = Map.empty, locked = {}\<rparr>"

definition observed_memo :: SmartMirrorMemo where
  "observed_memo =
     (SmartMirrorMemo_init (ascii ''memos''))\<lparr>on_recording_start := True, on_recording_stop := True\<rparr>"

text \<open>
  Two coordinators in mid-session, for examples: a voice memo started with the audio
  backend available, one chunk recorded; and a video memo started without it.
\<close>

definition recording_voice :: "SmartMirrorMemo \<times> filesystem" where
  "recording_voice =
     (let (file, self, fs) =
            start_voice_memo True (ascii ''20240101_120000'') (observed_memo, empty_fs)
      in (self\<lparr>audio_recorder := record_chunk [1, 2] (audio_recorder self)\<rparr>, fs))"

definition recording_video :: "SmartMirrorMemo \<times> filesystem" where
  "recording_video =
     snd (start_video_memo False None (ascii ''20240101_120000'') (ascii ''20240101_120000'')
            (observed_memo, empty_fs))"

section \<open>Command matching: proofs\<close>

lemma contains_iff: "contains k t \<longleftrightarrow> (\<exists>before after. t = before @ k @ after)"
proof (induction t)
  case Nil
  then show ?case by auto
next
  case (Cons c cs)
  show ?case
  proof
    assume "contains k (c # cs)"
    then consider "prefix k (c # cs)" | "contains k cs" by auto
    then show "\<exists>before after. c # cs = before @ k @ after"
    proof cases
      case 1
      then obtain after where "c # cs = k @ after" by (auto simp: prefix_def)
      then have "c # cs = [] @ k @ after" by simp
      then show ?thesis by blast
    next
      case 2
      with Cons.IH obtain before after where "cs = before @ k @ after" by blast
      then have "c # cs = (c # before) @ k @ after" by simp
      then show ?thesis by blast
    qed
  next
    assume "\<exists>before after. c # cs = before @ k @ after"
    then obtain before after where eq: "c # cs = before @ k @ after" by blast
    show "contains k (c # cs)"
    proof (cases before)
      case Nil
      with eq have "prefix k (c # cs)" by (simp add: prefix_def)
      then show ?thesis by simp
    next
      case (Cons b bs)
      with eq have "cs = bs @ k @ after" by simp
      with Cons.IH have "contains k cs" by blast
      then show ?thesis by simp
    qed
  qed
qed

lemma match_keywords_Some:
  "match_keywords cmd kws t = (if \<exists>k \<in> set kws. contains k t then Some cmd else None)"
  by (induction kws) auto

lemma keywords_of_simps:
  "keywords_of voice_memo = set voice_keywords"
  "keywords_of video_memo = set video_keywords"
  "keywords_of stop = set stop_keywords"
  by (simp_all add: keywords_of_def COMMANDS_def)

lemma mentions_iff: "mentions t cmd \<longleftrightarrow> (\<exists>k \<in> keywords_of cmd. contains k t)"
  by (simp add: mentions_def contains_iff)

lemma match_items_COMMANDS:
  "match_items COMMANDS t =
     (if mentions t voice_memo then Some voice_memo
      else if mentions t video_memo then Some video_memo
      else if mentions t stop then Some stop
      else None)"
  by (simp add: COMMANDS_def match_keywords_Some mentions_iff keywords_of_simps)

text \<open>
  Claim C8.  The matcher is a function of the text alone (given the library's
  lower-casing): it lower-cases the text and returns the command of the first of the
  three keyword sets, in the order voice, video, stop, that has a keyword occurring in
  the lowered text; a text mentioning two sets resolves to the earlier one, and a text
  mentioning none gives no command.
\<close>

theorem match_command_priority:
  "match_command lower text =
     (if mentions (lower text) voice_memo then Some voice_memo
      else if mentions (lower text) video_memo then Some video_memo
      else if mentions (lower text) stop then Some stop
      else None)"
  unfolding match_command_def by (rule match_items_COMMANDS)

theorem match_command_priority_witness:
  "match_command ascii_lower (ascii ''Video Memo, then STOP'') = Some video_memo
   \<and> \<not> mentions (ascii_lower (ascii ''Video Memo, then STOP'')) voice_memo
   \<and> mentions (ascii_lower (ascii ''Video Memo, then STOP'')) video_memo
   \<and> mentions (ascii_lower (ascii ''Video Memo, then STOP'')) stop"
proof -
  have low: "ascii_lower (ascii ''Video Memo, then STOP'') = ascii ''video memo, then stop''"
    by (simp add: ascii_lower_def ascii_def)
  have a: "\<not> mentions (ascii ''video memo, then stop'') voice_memo"
    by (simp add: mentions_iff keywords_of_simps voice_keywords_def ascii_def)
  have b: "mentions (ascii ''video memo, then stop'') video_memo"
    by (simp add: mentions_iff keywords_of_simps video_keywords_def ascii_def)
  have c: "mentions (ascii ''video memo, then stop'') stop"
    by (simp add: mentions_iff keywords_of_simps stop_keywords_def ascii_def)
  show ?thesis
    using match_command_priority [of ascii_lower "ascii ''Video Memo, then STOP''"] a b c
    by (simp add: low)
qed

section \<open>The coordinator: proofs\<close>

lemma audio_start_None_unchanged:
  "fst (audio_start_recording pa now r) = None \<Longrightarrow> snd (audio_start_recording pa now r) = r"
  by (auto simp: audio_start_recording_def Let_def split: if_splits)

lemma stop_recording_idle: "current_mode (fst (snd (stop_recording (self, fs)))) = None"
  by (simp add: stop_recording_def Let_def split: option.splits prod.splits mode.splits)

text \<open>
  Claim C4.  While a session is active (the mode is voice or video), \<open>start_voice_memo\<close>
  and \<open>start_video_memo\<close> return nothing and change nothing: the coordinator, with its
  mode, its recorders (their current file, their buffers) and its record of callback
  calls, and the file system are the ones before the call.
\<close>

theorem start_while_recording_is_noop:
  "current_mode self \<noteq> None \<Longrightarrow>
     start_voice_memo pa now (self, fs) = (None, self, fs)
     \<and> start_video_memo pa size_arg now now_audio (self, fs) = (None, self, fs)"
  by (simp add: start_voice_memo_def start_video_memo_def)

theorem start_while_recording_is_noop_witness:
  "current_mode (fst (snd (start_voice_memo True (ascii ''20240101_120000'') (observed_memo, empty_fs))))
     = Some voice
   \<and> start_video_memo True None (ascii ''20240101_120005'') (ascii ''20240101_120005'')
        (snd (start_voice_memo True (ascii ''20240101_120000'') (observed_memo, empty_fs)))
     = (None, snd (start_voice_memo True (ascii ''20240101_120000'') (observed_memo, empty_fs)))
   \<and> start_voice_memo True (ascii ''20240101_120005'')
        (snd (start_voice_memo True (ascii ''20240101_120000'') (observed_memo, empty_fs)))
     = (None, snd (start_voice_memo True (ascii ''20240101_120000'') (observed_memo, empty_fs)))"
proof -
  obtain r s f where st: "start_voice_memo True (ascii ''20240101_120000'') (observed_memo, empty_fs) = (r, s, f)"
    by (cases "start_voice_memo True (ascii ''20240101_120000'') (observed_memo, empty_fs)") auto
  have m: "current_mode s = Some voice"
    using st by (auto simp: start_voice_memo_def observed_memo_def SmartMirrorMemo_init_def
        Let_def split: prod.splits if_splits)
  then have "current_mode s \<noteq> None" by simp
  from start_while_recording_is_noop [OF this] m show ?thesis
    by (simp add: st)
qed

text \<open>
  Claim C5.  \<open>stop_recording\<close> in the idle state returns nothing, calls no callback and
  leaves the coordinator and the file system as they are; and whatever the state, a
  second \<open>stop_recording\<close> right after a first one is such a call.
\<close>

theorem stop_when_idle_is_noop:
  "(current_mode self = None \<longrightarrow> stop_recording (self, fs) = (None, self, fs))
   \<and> stop_recording (snd (stop_recording (self, fs))) = (None, snd (stop_recording (self, fs)))"
proof
  show "current_mode self = None \<longrightarrow> stop_recording (self, fs) = (None, self, fs)"
    by (simp add: stop_recording_def)
next
  obtain r s f where st: "stop_recording (self, fs) = (r, s, f)"
    by (cases "stop_recording (self, fs)") auto
  have "current_mode s = None"
    using stop_recording_idle [of self fs] by (simp add: st)
  then have "stop_recording (s, f) = (None, s, f)"
    by (simp add: stop_recording_def)
  then show "stop_recording (snd (stop_recording (self, fs))) = (None, snd (stop_recording (self, fs)))"
    by (simp add: st)
qed

theorem stop_when_idle_is_noop_witness:
  "current_mode observed_memo = None
   \<and> stop_recording (observed_memo, empty_fs) = (None, observed_memo, empty_fs)
   \<and> called (fst (snd (stop_recording (observed_memo, empty_fs)))) = []"
proof -
  have idle: "current_mode observed_memo = None"
    by (simp add: observed_memo_def SmartMirrorMemo_init_def)
  have c: "called observed_memo = []"
    by (simp add: observed_memo_def SmartMirrorMemo_init_def)
  from stop_when_idle_is_noop [of observed_memo empty_fs] idle c show ?thesis by simp
qed

text \<open>
  Claim C3.  \<open>stop_recording\<close> with an active session: in voice mode it stops the audio
  recorder, in video mode the video recorder, and in each case it returns the path that
  stop returned (possibly none), keeps the recorder and the file system as that stop
  left them, ends idle whatever the stop returned, and calls the stop callback exactly
  once, with the mode held before clearing and that path, when one is set (a callback
  that is not set cannot be called); nothing else changes and no other callback is
  called.
\<close>

theorem stop_recording_frees_session:
  "(current_mode self = Some voice \<longrightarrow>
      stop_recording (self, fs) =
        (fst (audio_stop_recording (audio_recorder self, fs)),
         self\<lparr>audio_recorder := fst (snd (audio_stop_recording (audio_recorder self, fs))),
               current_mode := None,
               called := called self @
                 (if on_recording_stop self
                  then [on_stop voice (fst (audio_stop_recording (audio_recorder self, fs)))]
                  else [])\<rparr>,
         snd (snd (audio_stop_recording (audio_recorder self, fs)))))
   \<and> (current_mode self = Some video \<longrightarrow>
      stop_recording (self, fs) =
        (fst (video_stop_recording (video_recorder self, fs)),
         self\<lparr>video_recorder := fst (snd (video_stop_recording (video_recorder self, fs))),
               current_mode := None,
               called := called self @
                 (if on_recording_stop self
                  then [on_stop video (fst (video_stop_recording (video_recorder self, fs)))]
                  else [])\<rparr>,
         snd (snd (video_stop_recording (video_recorder self, fs)))))
   \<and> (current_mode self \<noteq> None \<longrightarrow>
        current_mode (fst (snd (stop_recording (self, fs)))) = None)"
proof (intro conjI impI)
  assume m: "current_mode self = Some voice"
  obtain res r f where a: "audio_stop_recording (audio_recorder self, fs) = (res, r, f)"
    by (cases "audio_stop_recording (audio_recorder self, fs)") auto
  show "stop_recording (self, fs) =
        (fst (audio_stop_recording (audio_recorder self, fs)),
         self\<lparr>audio_recorder := fst (snd (audio_stop_recording (audio_recorder self, fs))),
               current_mode := None,
               called := called self @
                 (if on_recording_stop self
                  then [on_stop voice (fst (audio_stop_recording (audio_recorder self, fs)))]
                  else [])\<rparr>,
         snd (snd (audio_stop_recording (audio_recorder self, fs))))"
    using m by (simp add: stop_recording_def a)
next
  assume m: "current_mode self = Some video"
  obtain res r f where v: "video_stop_recording (video_recorder self, fs) = (res, r, f)"
    by (cases "video_stop_recording (video_recorder self, fs)") auto
  show "stop_recording (self, fs) =
        (fst (video_stop_recording (video_recorder self, fs)),
         self\<lparr>video_recorder := fst (snd (video_stop_recording (video_recorder self, fs))),
               current_mode := None,
               called := called self @
                 (if on_recording_stop self
                  then [on_stop video (fst (video_stop_recording (video_recorder self, fs)))]
                  else [])\<rparr>,
         snd (snd (video_stop_recording (video_recorder self, fs))))"
    using m by (simp add: stop_recording_def v)
next
  show "current_mode (fst (snd (stop_recording (self, fs)))) = None"
    by (rule stop_recording_idle)
qed

text \<open>
  Claim C2, as stated, fails: with the audio backend unavailable the start of the audio
  recorder returns nothing, and so does \<open>start_voice_memo\<close>, but the coordinator is left in
  voice mode and the start callback has been called.
\<close>

theorem start_voice_memo_failure_counterexample:
  "current_mode observed_memo = None
   \<and> fst (audio_start_recording False (ascii ''20240101_120000'') (audio_recorder observed_memo)) = None
   \<and> fst (start_voice_memo False (ascii ''20240101_120000'') (observed_memo, empty_fs)) = None
   \<and> current_mode (fst (snd (start_voice_memo False (ascii ''20240101_120000'')
        (observed_memo, empty_fs)))) = Some voice
   \<and> is_recording_memo (fst (snd (start_voice_memo False (ascii ''20240101_120000'')
        (observed_memo, empty_fs))))
   \<and> called (fst (snd (start_voice_memo False (ascii ''20240101_120000'')
        (observed_memo, empty_fs)))) = [on_start voice]"
  by (simp add: start_voice_memo_def audio_start_recording_def observed_memo_def
      SmartMirrorMemo_init_def is_recording_memo_def)

text \<open>
  Claim C2, amended.  For a call of \<open>start_voice_memo\<close> in the idle state, the result is
  the result of the audio recorder's start, the mode becomes voice, and the start
  callback, when set, is called once with voice, whether the audio start succeeded or
  not.  When the audio start fails (returns nothing), \<open>start_voice_memo\<close> returns nothing
  and nothing else changes: the recorders and the file system are as before.
\<close>

theorem start_voice_memo_failed_start:
  "current_mode self = None \<Longrightarrow>
     fst (start_voice_memo pa now (self, fs)) = fst (audio_start_recording pa now (audio_recorder self))
     \<and> current_mode (fst (snd (start_voice_memo pa now (self, fs)))) = Some voice
     \<and> called (fst (snd (start_voice_memo pa now (self, fs)))) =
         called self @ (if on_recording_start self then [on_start voice] else [])
     \<and> (fst (audio_start_recording pa now (audio_recorder self)) = None \<longrightarrow>
          start_voice_memo pa now (self, fs) =
            (None,
             self\<lparr>current_mode := Some voice,
                   called := called self @ (if on_recording_start self then [on_start voice] else [])\<rparr>,
             fs))"
proof -
  assume idle: "current_mode self = None"
  obtain res r where a: "audio_start_recording pa now (audio_recorder self) = (res, r)"
    by (cases "audio_start_recording pa now (audio_recorder self)") auto
  have unchanged: "res = None \<Longrightarrow> r = audio_recorder self"
    using audio_start_None_unchanged [of pa now "audio_recorder self"] by (simp add: a)
  show ?thesis
    using idle unchanged by (auto simp: start_voice_memo_def a Let_def)
qed

theorem start_voice_memo_failed_start_witness:
  "current_mode observed_memo = None
   \<and> fst (audio_start_recording False (ascii ''20240101_120000'') (audio_recorder observed_memo)) = None
   \<and> start_voice_memo False (ascii ''20240101_120000'') (observed_memo, empty_fs) =
       (None, observed_memo\<lparr>current_mode := Some voice, called := [on_start voice]\<rparr>, empty_fs)"
proof -
  have idle: "current_mode observed_memo = None"
    and set: "on_recording_start observed_memo" and c: "called observed_memo = []"
    by (simp_all add: observed_memo_def SmartMirrorMemo_init_def)
  have fail: "fst (audio_start_recording False (ascii ''20240101_120000'') (audio_recorder observed_memo)) = None"
    by (simp add: audio_start_recording_def)
  from start_voice_memo_failed_start [OF idle, of False "ascii ''20240101_120000''" empty_fs]
    idle set c fail
  show ?thesis by simp
qed

section \<open>The recorders: proofs\<close>






lemma audio_stop_written:
  "is_recording r \<Longrightarrow> frames r \<noteq> [] \<Longrightarrow> current_file r = Some p \<Longrightarrow> p \<noteq> [] \<Longrightarrow>
   p \<notin> locked fs \<Longrightarrow>
     audio_stop_recording (r, fs) =
       (Some p, r\<lparr>is_recording := False\<rparr>,
        fs\<lparr>files := (files fs)(p \<mapsto>
            WavFile \<lparr>nchannels = 1, sampwidth = 2, framerate = 44100,
                     nframes = length (concat (frames r)) div 2,
                     sample_data = concat (frames r)\<rparr>)\<rparr>)"
  by (simp add: audio_stop_recording_def truthy_def save_wav_def wave_write_def)


lemma audio_stop_elsewhere:
  "\<not> is_recording r \<or> current_file r \<noteq> Some q \<Longrightarrow>
     files (snd (snd (audio_stop_recording (r, fs)))) q = files fs q"
  by (auto simp: audio_stop_recording_def save_wav_def wave_write_def Let_def
      split: option.splits)

lemma audio_stop_locked: "locked (snd (snd (audio_stop_recording (r, fs)))) = locked fs"
  by (auto simp: audio_stop_recording_def save_wav_def wave_write_def Let_def
      split: option.splits)



section \<open>The video recorder: proofs\<close>

lemma voice_path_not_video_path:
  "os_path_join d (ascii ''voice_memo_'' @ x) \<noteq> os_path_join d (ascii ''video_memo_'' @ y)"
  by (simp add: os_path_join_def startswith_def ascii_def)

lemma video_start_fresh:
  "\<not> is_recording self \<Longrightarrow>
     video_start_recording pa size_arg now now_audio (self, fs) =
       (Some (os_path_join (save_dir self) (ascii ''video_memo_'' @ now @ ascii ''.mp4'')),
        self\<lparr>frame_size := (case size_arg of None \<Rightarrow> frame_size self | Some sz \<Rightarrow> sz),
             current_file := Some (os_path_join (save_dir self) (ascii ''video_memo_'' @ now @ ascii ''.mp4'')),
             video_writer := Some (fst (VideoWriter_open
                 (os_path_join (save_dir self) (ascii ''video_memo_'' @ now @ ascii ''.mp4'')) fs)),
             vr_audio_recorder := Some
               (if pa then
                  \<lparr>save_dir = save_dir self, is_recording = True,
                   current_file = Some (os_path_join (save_dir self)
                       (ascii ''voice_memo_'' @ now_audio @ ascii ''.wav'')),
                   frames = []\<rparr>
                else
                  \<lparr>save_dir = save_dir self, is_recording = False,
                   current_file = Some (sidecar_path (os_path_join (save_dir self)
                       (ascii ''video_memo_'' @ now @ ascii ''.mp4''))),
                   frames = []\<rparr>),
             is_recording := True\<rparr>,
        snd (VideoWriter_open
               (os_path_join (save_dir self) (ascii ''video_memo_'' @ now @ ascii ''.mp4'')) fs))"
  by (cases size_arg)
    (simp_all add: video_start_recording_def Let_def audio_start_recording_def
      AudioRecorder_init_def sidecar_path_def split: prod.splits)


lemma replace_Nil: "old \<noteq> [] \<Longrightarrow> replace old new [] = []"
  by (simp add: replace.simps)

lemma replace_Cons_hit:
  "old \<noteq> [] \<Longrightarrow> prefix old (c # cs) \<Longrightarrow>
     replace old new (c # cs) = new @ replace old new (drop (length old) (c # cs))"
  by (subst replace.simps) simp

lemma replace_Cons_miss:
  "old \<noteq> [] \<Longrightarrow> \<not> prefix old (c # cs) \<Longrightarrow>
     replace old new (c # cs) = c # replace old new cs"
  by (subst replace.simps) simp

lemma mp4_no_overlap:
  assumes "prefix (ascii ''.mp4'') ((c # cs) @ ascii ''.mp4'')"
  shows "prefix (ascii ''.mp4'') (c # cs)"
proof -
  from assms have c: "c = 46" and rest: "prefix [109, 112, 52] (cs @ [46, 109, 112, 52])"
    by (simp_all add: ascii_def)
  from rest obtain c2 cs2 where cs: "cs = c2 # cs2"
    by (cases cs) simp_all
  with rest have c2: "c2 = 109" and rest2: "prefix [112, 52] (cs2 @ [46, 109, 112, 52])"
    by simp_all
  from rest2 obtain c3 cs3 where cs2: "cs2 = c3 # cs3"
    by (cases cs2) simp_all
  with rest2 have c3: "c3 = 112" and rest3: "prefix [52] (cs3 @ [46, 109, 112, 52])"
    by simp_all
  from rest3 obtain c4 cs4 where cs3: "cs3 = c4 # cs4"
    by (cases cs3) simp_all
  with rest3 have c4: "c4 = 52" by simp
  show ?thesis
    by (simp add: ascii_def c cs c2 cs2 c3 cs3 c4)
qed

lemma sidecar_path_of_stem:
  "\<not> contains (ascii ''.mp4'') stem \<Longrightarrow>
     sidecar_path (stem @ ascii ''.mp4'') = stem @ ascii ''_audio.wav''"
proof (induction stem)
  case Nil
  have "replace (ascii ''.mp4'') (ascii ''_audio.wav'') (ascii ''.mp4'')
      = ascii ''_audio.wav'' @ replace (ascii ''.mp4'') (ascii ''_audio.wav'') []"
    by (subst replace.simps) (simp add: ascii_def)
  also have "replace (ascii ''.mp4'') (ascii ''_audio.wav'') [] = []"
    by (rule replace_Nil) (simp add: ascii_def)
  finally show ?case by (simp add: sidecar_path_def)
next
  case (Cons c cs)
  from Cons.prems have np: "\<not> prefix (ascii ''.mp4'') (c # cs)"
    and nc: "\<not> contains (ascii ''.mp4'') cs"
    by simp_all
  from np have miss: "\<not> prefix (ascii ''.mp4'') ((c # cs) @ ascii ''.mp4'')"
    using mp4_no_overlap [of c cs] by blast
  have ne: "ascii ''.mp4'' \<noteq> []" by (simp add: ascii_def)
  have "replace (ascii ''.mp4'') (ascii ''_audio.wav'') (c # (cs @ ascii ''.mp4''))
      = c # replace (ascii ''.mp4'') (ascii ''_audio.wav'') (cs @ ascii ''.mp4'')"
    using miss by (intro replace_Cons_miss [OF ne]) simp
  with Cons.IH [OF nc] show ?case
    by (simp add: sidecar_path_def)
qed

lemma video_capture_keeps:
  "is_recording (fst (video_capture e sf)) = is_recording (fst sf)
   \<and> current_file (fst (video_capture e sf)) = current_file (fst sf)
   \<and> map_option current_file (vr_audio_recorder (fst (video_capture e sf)))
       = map_option current_file (vr_audio_recorder (fst sf))
   \<and> map_option is_recording (vr_audio_recorder (fst (video_capture e sf)))
       = map_option is_recording (vr_audio_recorder (fst sf))"
  by (cases e; cases sf)
    (auto simp: write_frame_def record_chunk_def Let_def option.map_comp comp_def
      split: option.splits if_splits intro!: option.map_cong)

lemma fold_video_capture_keeps:
  "is_recording (fst (fold video_capture es sf)) = is_recording (fst sf)
   \<and> current_file (fst (fold video_capture es sf)) = current_file (fst sf)
   \<and> map_option current_file (vr_audio_recorder (fst (fold video_capture es sf)))
       = map_option current_file (vr_audio_recorder (fst sf))
   \<and> map_option is_recording (vr_audio_recorder (fst (fold video_capture es sf)))
       = map_option is_recording (vr_audio_recorder (fst sf))"
proof (induction es arbitrary: sf)
  case Nil
  show ?case by simp
next
  case (Cons e es)
  show ?case
    using Cons.IH [of "video_capture e sf"] video_capture_keeps [of e sf] by simp
qed

lemma fold_video_capture_no_frame:
  "\<forall>f. Frame f \<notin> set es \<Longrightarrow> snd (fold video_capture es sf) = snd sf"
proof (induction es arbitrary: sf)
  case Nil
  show ?case by simp
next
  case (Cons e es)
  from Cons.prems obtain c where e: "e = Chunk c" by (cases e) auto
  from Cons.prems have "\<forall>f. Frame f \<notin> set es" by auto
  from Cons.IH [OF this, of "video_capture e sf"] show ?case
    by (cases sf) (simp add: e)
qed

lemma video_stop_result:
  "is_recording s \<Longrightarrow> fst (video_stop_recording (s, fs)) = current_file s"
  by (simp add: video_stop_recording_def Let_def split: option.splits prod.splits)

lemma video_stop_elsewhere:
  "map_option is_recording (vr_audio_recorder s) \<noteq> Some True
     \<or> map_option current_file (vr_audio_recorder s) \<noteq> Some (Some q) \<Longrightarrow>
   files (snd (snd (video_stop_recording (s, fs)))) q = files fs q"
proof (cases "vr_audio_recorder s")
  case None
  then show ?thesis by (simp add: video_stop_recording_def)
next
  case (Some r)
  assume "map_option is_recording (vr_audio_recorder s) \<noteq> Some True
     \<or> map_option current_file (vr_audio_recorder s) \<noteq> Some (Some q)"
  with Some have "\<not> is_recording r \<or> current_file r \<noteq> Some q" by simp
  from audio_stop_elsewhere [OF this, of fs]
  have a: "files (snd (snd (audio_stop_recording (r, fs)))) q = files fs q" .
  obtain res r1 fs1 where st: "audio_stop_recording (r, fs) = (res, r1, fs1)"
    by (cases "audio_stop_recording (r, fs)") auto
  from a have "files fs1 q = files fs q" by (simp add: st)
  then show ?thesis
    using Some by (simp add: video_stop_recording_def Let_def st)
qed

text \<open>
  Claim C10.  A video session returns, at its stop, the path of the video file, the one
  its start returned, whatever was captured in between and also when no frame was
  written; when the writer could open the container and no frame was written, the file
  at that path exists and holds no frame.  An audio session with nothing captured
  returns nothing.
\<close>

theorem video_session_returns_path:
  "\<not> is_recording self \<Longrightarrow>
     fst (video_start_recording pa size_arg now now_audio (self, fs))
       = Some (os_path_join (save_dir self) (ascii ''video_memo_'' @ now @ ascii ''.mp4''))
     \<and> fst (video_session pa size_arg now now_audio captured (self, fs))
       = Some (os_path_join (save_dir self) (ascii ''video_memo_'' @ now @ ascii ''.mp4''))
     \<and> (os_path_join (save_dir self) (ascii ''video_memo_'' @ now @ ascii ''.mp4'') \<notin> locked fs
          \<and> (\<forall>f. Frame f \<notin> set captured) \<longrightarrow>
        files (snd (snd (video_session pa size_arg now now_audio captured (self, fs))))
          (os_path_join (save_dir self) (ascii ''video_memo_'' @ now @ ascii ''.mp4''))
          = Some (VideoFile []))
     \<and> fst (audio_session now_audio [] (AudioRecorder_init (save_dir self), fs)) = None"
proof -
  assume fresh: "\<not> is_recording self"
  define p where "p = os_path_join (save_dir self) (ascii ''video_memo_'' @ now @ ascii ''.mp4'')"
  obtain s1 fs1 where start: "video_start_recording pa size_arg now now_audio (self, fs) = (Some p, s1, fs1)"
    using video_start_fresh [OF fresh, of pa size_arg now now_audio fs] by (simp add: p_def)
  have s1: "is_recording s1" "current_file s1 = Some p"
    and fs1: "fs1 = snd (VideoWriter_open p fs)"
    and side: "map_option is_recording (vr_audio_recorder s1) \<noteq> Some True
       \<or> map_option current_file (vr_audio_recorder s1) \<noteq> Some (Some p)"
    using start video_start_fresh [OF fresh, of pa size_arg now now_audio fs]
      voice_path_not_video_path [of "save_dir self" "now_audio @ ascii ''.wav''" "now @ ascii ''.mp4''"]
    by (cases pa; simp add: p_def; fastforce)+
  obtain s2 fs2 where cap: "fold video_capture captured (s1, fs1) = (s2, fs2)"
    by (cases "fold video_capture captured (s1, fs1)") auto
  have s2: "is_recording s2" "current_file s2 = Some p"
    and side2: "map_option is_recording (vr_audio_recorder s2) \<noteq> Some True
       \<or> map_option current_file (vr_audio_recorder s2) \<noteq> Some (Some p)"
    using fold_video_capture_keeps [of captured "(s1, fs1)"] s1 side by (simp_all add: cap)
  have sess: "video_session pa size_arg now now_audio captured (self, fs) = video_stop_recording (s2, fs2)"
    by (simp add: video_session_def start cap)
  have res: "fst (video_stop_recording (s2, fs2)) = Some p"
    using video_stop_result [OF s2(1), of fs2] s2(2) by simp
  have zero_frames: "files (snd (snd (video_stop_recording (s2, fs2)))) p = Some (VideoFile [])"
    if "p \<notin> locked fs" "\<forall>f. Frame f \<notin> set captured"
  proof -
    have "fs2 = fs1"
      using fold_video_capture_no_frame [OF that(2), of "(s1, fs1)"] by (simp add: cap)
    moreover have "files fs1 p = Some (VideoFile [])"
      using that(1) by (simp add: fs1 VideoWriter_open_def)
    ultimately show ?thesis
      using video_stop_elsewhere [OF side2, of fs2] by simp
  qed
  have audio: "fst (audio_session now_audio [] (AudioRecorder_init (save_dir self), fs)) = None"
    by (simp add: audio_session_def audio_start_recording_def AudioRecorder_init_def
        audio_stop_recording_def Let_def)
  show ?thesis
    unfolding p_def [symmetric] sess using start res zero_frames audio by simp
qed

theorem video_session_returns_path_witness:
  "\<not> is_recording (VideoRecorder_init (ascii ''memos''))
   \<and> fst (video_session False None (ascii ''20240101_120000'') (ascii ''20240101_120000'') []
        (VideoRecorder_init (ascii ''memos''), empty_fs))
       = Some (ascii ''memos/video_memo_20240101_120000.mp4'')
   \<and> files (snd (snd (video_session False None (ascii ''20240101_120000'') (ascii ''20240101_120000'') []
        (VideoRecorder_init (ascii ''memos''), empty_fs))))
        (ascii ''memos/video_memo_20240101_120000.mp4'') = Some (VideoFile [])"
proof -
  have fresh: "\<not> is_recording (VideoRecorder_init (ascii ''memos''))"
    and dir: "save_dir (VideoRecorder_init (ascii ''memos'')) = ascii ''memos''"
    by (simp_all add: VideoRecorder_init_def)
  have path: "os_path_join (ascii ''memos'') (ascii ''video_memo_'' @ ascii ''20240101_120000'' @ ascii ''.mp4'')
      = ascii ''memos/video_memo_20240101_120000.mp4''"
    by (simp add: os_path_join_def startswith_def endswith_def ascii_def)
  have unlocked: "ascii ''memos/video_memo_20240101_120000.mp4'' \<notin> locked empty_fs"
    by (simp add: empty_fs_def)
  show ?thesis
    using video_session_returns_path [OF fresh, where pa = False and size_arg = None
        and now = "ascii ''20240101_120000''" and now_audio = "ascii ''20240101_120000''"
        and captured = "[]" and fs = empty_fs] fresh unlocked
    by (simp add: dir path)
qed


text \<open>
  Claim C1 at a concrete session with the audio backend available.  The sidecar path
  derived from the video path is \<open>memos/video_memo_20240101_120000_audio.wav\<close>, and the
  video recorder assigns it to the companion recorder; but the companion's own
  \<open>start_recording\<close> then replaces it by a fresh voice-memo path, so that the session's
  audio is written to \<open>memos/voice_memo_20240101_120000.wav\<close> and nothing lies at the
  sidecar path.
\<close>

theorem video_sidecar_audio_misplaced:
  "sidecar_path (ascii ''memos/video_memo_20240101_120000.mp4'')
     = ascii ''memos/video_memo_20240101_120000_audio.wav''
   \<and> map_option current_file (vr_audio_recorder (fst (snd
         (video_start_recording True None (ascii ''20240101_120000'') (ascii ''20240101_120000'')
            (VideoRecorder_init (ascii ''memos''), empty_fs)))))
     = Some (Some (ascii ''memos/voice_memo_20240101_120000.wav''))
   \<and> fst (video_session True None (ascii ''20240101_120000'') (ascii ''20240101_120000'')
           [Chunk [1, 2], Chunk [3, 4]] (VideoRecorder_init (ascii ''memos''), empty_fs))
     = Some (ascii ''memos/video_memo_20240101_120000.mp4'')
   \<and> files (snd (snd (video_session True None (ascii ''20240101_120000'') (ascii ''20240101_120000'')
           [Chunk [1, 2], Chunk [3, 4]] (VideoRecorder_init (ascii ''memos''), empty_fs))))
         (ascii ''memos/video_memo_20240101_120000_audio.wav'') = None
   \<and> files (snd (snd (video_session True None (ascii ''20240101_120000'') (ascii ''20240101_120000'')
           [Chunk [1, 2], Chunk [3, 4]] (VideoRecorder_init (ascii ''memos''), empty_fs))))
         (ascii ''memos/voice_memo_20240101_120000.wav'')
     = Some (WavFile \<lparr>nchannels = 1, sampwidth = 2, framerate = 44100, nframes = 2,
                       sample_data = [1, 2, 3, 4]\<rparr>)"
proof -
  let ?v = "VideoRecorder_init (ascii ''memos'')"
  let ?ts = "ascii ''20240101_120000''"
  have stem: "\<not> contains (ascii ''.mp4'') (ascii ''memos/video_memo_20240101_120000'')"
    by (simp add: ascii_def)
  have side: "sidecar_path (ascii ''memos/video_memo_20240101_120000.mp4'')
      = ascii ''memos/video_memo_20240101_120000_audio.wav''"
    using sidecar_path_of_stem [OF stem] by (simp add: ascii_def)
  have fresh: "\<not> is_recording ?v" and dir: "save_dir ?v = ascii ''memos''"
    by (simp_all add: VideoRecorder_init_def)
  have vpath: "os_path_join (ascii ''memos'') (ascii ''video_memo_'' @ ?ts @ ascii ''.mp4'')
      = ascii ''memos/video_memo_20240101_120000.mp4''"
    by (simp add: os_path_join_def startswith_def endswith_def ascii_def)
  have apath: "os_path_join (ascii ''memos'') (ascii ''voice_memo_'' @ ?ts @ ascii ''.wav'')
      = ascii ''memos/voice_memo_20240101_120000.wav''"
    by (simp add: os_path_join_def startswith_def endswith_def ascii_def)
  have ne1: "ascii ''memos/video_memo_20240101_120000.mp4'' \<noteq> ascii ''memos/video_memo_20240101_120000_audio.wav''"
    and ne2: "ascii ''memos/voice_memo_20240101_120000.wav'' \<noteq> ascii ''memos/video_memo_20240101_120000_audio.wav''"
    by (simp_all add: ascii_def)
  note start = video_start_fresh [OF fresh, of True None ?ts ?ts empty_fs, unfolded dir vpath apath]
  have target: "map_option current_file (vr_audio_recorder (fst (snd
         (video_start_recording True None ?ts ?ts (?v, empty_fs)))))
     = Some (Some (ascii ''memos/voice_memo_20240101_120000.wav''))"
    by (simp add: start)
  have sess_eq: "video_session True None ?ts ?ts [Chunk [1, 2], Chunk [3, 4]] (?v, empty_fs)
      = video_stop_recording (fold video_capture [Chunk [1, 2], Chunk [3, 4]]
          (snd (video_start_recording True None ?ts ?ts (?v, empty_fs))))"
    by (simp add: video_session_def)
  have sess: "fst (video_session True None ?ts ?ts [Chunk [1, 2], Chunk [3, 4]] (?v, empty_fs))
      = Some (ascii ''memos/video_memo_20240101_120000.mp4'')"
    unfolding sess_eq start by (simp add: video_stop_result)
  have out: "files (snd (snd (video_session True None ?ts ?ts [Chunk [1, 2], Chunk [3, 4]] (?v, empty_fs))))
      = (Map.empty(ascii ''memos/video_memo_20240101_120000.mp4'' \<mapsto> VideoFile []))
          (ascii ''memos/voice_memo_20240101_120000.wav'' \<mapsto>
             WavFile \<lparr>nchannels = 1, sampwidth = 2, framerate = 44100,
                       nframes = length [1, 2, 3, 4 :: byte] div 2,
                       sample_data = [1, 2, 3, 4]\<rparr>)"
    unfolding sess_eq start
    by (simp add: record_chunk_def video_stop_recording_def audio_stop_recording_def
        truthy_def save_wav_def wave_write_def VideoWriter_open_def empty_fs_def ascii_def)
  show ?thesis
    using side target sess ne1 ne2 by (simp add: out)
qed

section \<open>MemoManager.delete_memo: proofs\<close>

lemma delete_memo_try_cases:
  "delete_memo_try fs p =
     (if files fs p = None then (Inr None, fs)
      else if p \<in> locked fs then (Inl OSError, fs)
      else if sidecar_path p = p \<or> files fs (sidecar_path p) = None
        then (Inr (Some True), fs\<lparr>files := (files fs)(p := None)\<rparr>)
      else if sidecar_path p \<in> locked fs
        then (Inl OSError, fs\<lparr>files := (files fs)(p := None)\<rparr>)
      else (Inr (Some True), fs\<lparr>files := (files fs)(p := None, sidecar_path p := None)\<rparr>))"
  by (auto simp: delete_memo_try_def os_path_exists_def os_remove_def Let_def)

lemma delete_memo_cases:
  "delete_memo fs p =
     (if files fs p = None then (Inr False, fs)
      else if p \<in> locked fs then (Inr False, fs)
      else if sidecar_path p = p \<or> files fs (sidecar_path p) = None
        then (Inr True, fs\<lparr>files := (files fs)(p := None)\<rparr>)
      else if sidecar_path p \<in> locked fs
        then (Inr False, fs\<lparr>files := (files fs)(p := None)\<rparr>)
      else (Inr True, fs\<lparr>files := (files fs)(p := None, sidecar_path p := None)\<rparr>))"
  by (simp add: delete_memo_def delete_memo_try_cases)

text \<open>
  The outcomes of \<open>delete_memo\<close>, with the sidecar path as the code derives it.  The
  result is always a boolean.  It is true exactly when the target exists and neither
  removal fails; then the target is gone, nothing lies at the derived path, and every
  other path is untouched.  When the removal of the target or of a file at the derived
  path fails, it is false.  For a video path whose stem has no other \<open>.mp4\<close>, the
  derived path is the stem followed by \<open>_audio.wav\<close>.
\<close>

lemma delete_memo_outcomes:
  "(\<exists>b. fst (delete_memo fs p) = Inr b)
   \<and> (fst (delete_memo fs p) = Inr True \<longleftrightarrow>
        files fs p \<noteq> None \<and> p \<notin> locked fs
        \<and> (sidecar_path p \<noteq> p \<and> files fs (sidecar_path p) \<noteq> None \<longrightarrow> sidecar_path p \<notin> locked fs))
   \<and> (fst (delete_memo fs p) = Inr True \<longrightarrow>
        files (snd (delete_memo fs p)) p = None
        \<and> files (snd (delete_memo fs p)) (sidecar_path p) = None
        \<and> (\<forall>q. q \<noteq> p \<and> q \<noteq> sidecar_path p \<longrightarrow> files (snd (delete_memo fs p)) q = files fs q))
   \<and> (files fs p \<noteq> None \<and> os_remove fs p = Inl OSError \<longrightarrow> delete_memo fs p = (Inr False, fs))
   \<and> (\<forall>fs1. os_remove fs p = Inr fs1 \<and> os_path_exists fs1 (sidecar_path p)
          \<and> os_remove fs1 (sidecar_path p) = Inl OSError \<longrightarrow> delete_memo fs p = (Inr False, fs1))
   \<and> (\<forall>stem. p = stem @ ascii ''.mp4'' \<and> \<not> contains (ascii ''.mp4'') stem \<longrightarrow>
          sidecar_path p = stem @ ascii ''_audio.wav'')"
proof (intro conjI)
  show "\<exists>b. fst (delete_memo fs p) = Inr b"
    by (auto simp: delete_memo_cases)
  show "fst (delete_memo fs p) = Inr True \<longleftrightarrow>
        files fs p \<noteq> None \<and> p \<notin> locked fs
        \<and> (sidecar_path p \<noteq> p \<and> files fs (sidecar_path p) \<noteq> None \<longrightarrow> sidecar_path p \<notin> locked fs)"
    by (auto simp: delete_memo_cases)
  show "fst (delete_memo fs p) = Inr True \<longrightarrow>
        files (snd (delete_memo fs p)) p = None
        \<and> files (snd (delete_memo fs p)) (sidecar_path p) = None
        \<and> (\<forall>q. q \<noteq> p \<and> q \<noteq> sidecar_path p \<longrightarrow> files (snd (delete_memo fs p)) q = files fs q)"
    by (auto simp: delete_memo_cases)
  show "files fs p \<noteq> None \<and> os_remove fs p = Inl OSError \<longrightarrow> delete_memo fs p = (Inr False, fs)"
    by (auto simp: delete_memo_cases os_remove_def split: if_splits)
  show "\<forall>fs1. os_remove fs p = Inr fs1 \<and> os_path_exists fs1 (sidecar_path p)
          \<and> os_remove fs1 (sidecar_path p) = Inl OSError \<longrightarrow> delete_memo fs p = (Inr False, fs1)"
    by (auto simp: delete_memo_cases os_remove_def os_path_exists_def split: if_splits)
  show "\<forall>stem. p = stem @ ascii ''.mp4'' \<and> \<not> contains (ascii ''.mp4'') stem \<longrightarrow>
          sidecar_path p = stem @ ascii ''_audio.wav''"
    by (auto simp: sidecar_path_of_stem)
qed


lemma delete_memo_outcomes_example:
  "files video_and_sidecar (ascii ''memos/video_memo_20240101_120000.mp4'') \<noteq> None
   \<and> files video_and_sidecar (ascii ''memos/video_memo_20240101_120000_audio.wav'') \<noteq> None
   \<and> fst (delete_memo video_and_sidecar (ascii ''memos/video_memo_20240101_120000.mp4'')) = Inr True
   \<and> files (snd (delete_memo video_and_sidecar (ascii ''memos/video_memo_20240101_120000.mp4'')))
         (ascii ''memos/video_memo_20240101_120000.mp4'') = None
   \<and> files (snd (delete_memo video_and_sidecar (ascii ''memos/video_memo_20240101_120000.mp4'')))
         (ascii ''memos/video_memo_20240101_120000_audio.wav'') = None"
proof -
  let ?v = "ascii ''memos/video_memo_20240101_120000.mp4''"
  let ?a = "ascii ''memos/video_memo_20240101_120000_audio.wav''"
  let ?stem = "ascii ''memos/video_memo_20240101_120000''"
  note spec = delete_memo_outcomes [of video_and_sidecar ?v]
  have stem: "?v = ?stem @ ascii ''.mp4''" "\<not> contains (ascii ''.mp4'') ?stem"
    and a: "?stem @ ascii ''_audio.wav'' = ?a"
    by (simp_all add: ascii_def)
  from spec stem have "sidecar_path ?v = ?stem @ ascii ''_audio.wav''"
    by blast
  then have side: "sidecar_path ?v = ?a"
    by (simp only: a)
  have there: "files video_and_sidecar ?v \<noteq> None" "files video_and_sidecar ?a \<noteq> None"
    and free: "?v \<notin> locked video_and_sidecar" "?a \<notin> locked video_and_sidecar"
    by (simp_all add: video_and_sidecar_def)
  from spec there free have ok: "fst (delete_memo video_and_sidecar ?v) = Inr True"
    unfolding side by blast
  with spec have "files (snd (delete_memo video_and_sidecar ?v)) ?v = None"
    and "files (snd (delete_memo video_and_sidecar ?v)) ?a = None"
    unfolding side by blast+
  with there ok show ?thesis by blast
qed

text \<open>
  Claim C9 at a concrete path.  The memo directory is \<open>a.mp4\<close>.  The target is the video
  memo \<open>a.mp4/video_memo_20240101_120000.mp4\<close>, and its sidecar, of the same stem, is
  \<open>a.mp4/video_memo_20240101_120000_audio.wav\<close>.  \<open>delete_memo\<close> derives the sidecar path
  by replacing every \<open>.mp4\<close> of the path, the one in the directory name too: it returns
  true, the target is gone, the sidecar is still there, and the file
  \<open>a_audio.wav/video_memo_20240101_120000_audio.wav\<close> of another directory has been
  removed.
\<close>

theorem delete_memo_wrong_sidecar:
  "sidecar_path (ascii ''a.mp4/video_memo_20240101_120000.mp4'')
     = ascii ''a_audio.wav/video_memo_20240101_120000_audio.wav''
   \<and> files dotted_dir (ascii ''a.mp4/video_memo_20240101_120000_audio.wav'') \<noteq> None
   \<and> files dotted_dir (ascii ''a_audio.wav/video_memo_20240101_120000_audio.wav'') \<noteq> None
   \<and> fst (delete_memo dotted_dir (ascii ''a.mp4/video_memo_20240101_120000.mp4'')) = Inr True
   \<and> files (snd (delete_memo dotted_dir (ascii ''a.mp4/video_memo_20240101_120000.mp4'')))
         (ascii ''a.mp4/video_memo_20240101_120000.mp4'') = None
   \<and> files (snd (delete_memo dotted_dir (ascii ''a.mp4/video_memo_20240101_120000.mp4'')))
         (ascii ''a.mp4/video_memo_20240101_120000_audio.wav'')
       = files dotted_dir (ascii ''a.mp4/video_memo_20240101_120000_audio.wav'')
   \<and> files (snd (delete_memo dotted_dir (ascii ''a.mp4/video_memo_20240101_120000.mp4'')))
         (ascii ''a_audio.wav/video_memo_20240101_120000_audio.wav'') = None"
proof -
  let ?v = "ascii ''a.mp4/video_memo_20240101_120000.mp4''"
  let ?same = "ascii ''a.mp4/video_memo_20240101_120000_audio.wav''"
  let ?other = "ascii ''a_audio.wav/video_memo_20240101_120000_audio.wav''"
  have side: "sidecar_path ?v = ?other"
    by (simp add: sidecar_path_def replace.simps ascii_def)
  have ne: "?other \<noteq> ?v" "?same \<noteq> ?v" "?same \<noteq> ?other"
    by (simp_all add: ascii_def)
  have there: "files dotted_dir ?v \<noteq> None" "files dotted_dir ?same \<noteq> None"
      "files dotted_dir ?other \<noteq> None"
    and free: "locked dotted_dir = {}"
    by (simp_all add: dotted_dir_def ascii_def)
  have del: "delete_memo dotted_dir ?v =
      (Inr True, dotted_dir\<lparr>files := (files dotted_dir)(?v := None, ?other := None)\<rparr>)"
    using there ne by (auto simp: delete_memo_cases side free)
  show ?thesis
    using there ne by (simp add: del side)
qed

section \<open>MemoManager.get_all_memos: proofs\<close>

lemma endswith_contains: "endswith s p \<Longrightarrow> contains p s"
proof -
  assume "endswith s p"
  then obtain zs where "rev s = rev p @ zs"
    by (auto simp: endswith_def prefix_def)
  then have "rev (rev s) = rev (rev p @ zs)" by simp
  then have "s = rev zs @ p @ []" by simp
  then show ?thesis unfolding contains_iff by blast
qed

lemma scan_dir_member:
  "m \<in> set (scan_dir d es) \<Longrightarrow>
     \<exists>e \<in> set es. d_isfile e \<and> \<not> contains (ascii ''_audio.wav'') (d_name e)
       \<and> classify (d_name e) = Some (memo_type m) \<and> filename m = d_name e
       \<and> filepath m = os_path_join d (d_name e) \<and> fsize m = d_size e"
  by (induction es) (auto split: if_splits option.splits)

lemma scan_dir_names:
  "filename ` set (scan_dir d es) =
     {d_name e | e. e \<in> set es \<and> d_isfile e \<and> \<not> contains (ascii ''_audio.wav'') (d_name e)
        \<and> classify (d_name e) \<noteq> None}"
  by (induction es) (auto split: option.splits)

lemma set_sort_reverse: "set (sort_reverse key xs) = set xs"
  by (simp add: sort_reverse_def)

lemma sort_reverse_descending:
  "sorted_wrt (\<lambda>a b. key b \<le> key a) (sort_reverse key xs)"
proof -
  have "sorted (map key (sort_key key (rev xs)))" by simp
  then have "sorted_wrt (\<lambda>a b. key a \<le> key b) (sort_key key (rev xs))"
    by (simp add: sorted_map)
  then show ?thesis
    by (simp add: sort_reverse_def sorted_wrt_rev)
qed

lemma filter_sort_reverse:
  "filter P (sort_reverse key xs) = sort_reverse key (filter P xs)"
  by (simp add: sort_reverse_def rev_filter [symmetric] filter_sort)

lemma filter_scan_dir:
  "filter (\<lambda>m. Q (filename m)) (scan_dir d es) = scan_dir d (filter (\<lambda>e. Q (d_name e)) es)"
  by (induction es) (auto split: option.splits)

lemma filter_distinct_name:
  "distinct (map d_name es) \<Longrightarrow> e \<in> set es \<Longrightarrow> filter (\<lambda>x. d_name x = d_name e) es = [e]"
proof (induction es)
  case Nil
  then show ?case by simp
next
  case (Cons x xs)
  show ?case
  proof (cases "x = e")
    case True
    with Cons.prems have "d_name e \<notin> d_name ` set xs" by simp
    then have "\<forall>y \<in> set xs. d_name y \<noteq> d_name e" by (auto simp: image_iff)
    then have "filter (\<lambda>x. d_name x = d_name e) xs = []" by (simp add: filter_empty_conv)
    with True show ?thesis by simp
  next
    case False
    with Cons.prems have "e \<in> set xs" by simp
    with Cons.prems have "d_name x \<noteq> d_name e" by auto
    with Cons.IH Cons.prems \<open>e \<in> set xs\<close> show ?thesis by simp
  qed
qed

lemma classify_cases:
  "classify n = Some t \<longleftrightarrow>
     (t = voice \<and> startswith n (ascii ''voice_memo'') \<and> endswith n (ascii ''.wav''))
     \<or> (t = video \<and> startswith n (ascii ''video_memo'') \<and> endswith n (ascii ''.mp4'')
         \<and> \<not> (startswith n (ascii ''voice_memo'') \<and> endswith n (ascii ''.wav'')))"
  by (auto simp: classify_def)

lemma scenario_split:
  "split 95 (ascii ''video_memo_20240101_120000.mp4'')
     = [ascii ''video'', ascii ''memo'', ascii ''20240101'', ascii ''120000.mp4'']"
  by (simp add: ascii_def)

lemma scenario_split_time:
  "hd (split 46 (ascii ''120000.mp4'')) = ascii ''120000''"
  by (simp add: ascii_def)

lemma scenario_strptime:
  "strptime (ascii ''20240101_120000'') = Some (2024, 1, 1, 12, 0, 0, 0)"
  by (simp add: strptime_def format_regex_match_def re_Y_def re_m_def re_d_def re_H_def
      re_M_def re_S_def re_underscore_def alternatives_def int_of_def digit_def char_range_def
      one_def days_in_month_def is_leap_def ascii_def)

lemma scenario_timestamp:
  "filename_timestamp (ascii ''video_memo_20240101_120000.mp4'') = Some (2024, 1, 1, 12, 0, 0, 0)"
proof -
  have "ascii ''20240101'' @ ascii ''_'' @ ascii ''120000'' = ascii ''20240101_120000''"
    by (simp add: ascii_def)
  then show ?thesis
    by (simp add: filename_timestamp_def scenario_split nth_opt_def scenario_split_time
        scenario_strptime)
qed

lemma scenario_classify:
  "classify (ascii ''video_memo_20240101_120000.mp4'') = Some video"
  by (simp add: classify_def startswith_def endswith_def ascii_def)

lemma scenario_not_sidecar:
  "\<not> contains (ascii ''_audio.wav'') (ascii ''video_memo_20240101_120000.mp4'')"
  by (simp add: ascii_def)

lemma scenario_sidecar:
  "contains (ascii ''_audio.wav'') (ascii ''video_memo_20240101_120000_audio.wav'')"
  by (simp add: ascii_def)


lemma scenario_scan:
  "d_isfile e \<Longrightarrow> d_name e = ascii ''video_memo_20240101_120000.mp4'' \<Longrightarrow>
     scan_dir d [e] =
       [\<lparr>filename = ascii ''video_memo_20240101_120000.mp4'',
         filepath = os_path_join d (ascii ''video_memo_20240101_120000.mp4''),
         memo_type = video, timestamp = (2024, 1, 1, 12, 0, 0, 0), fsize = d_size e\<rparr>]"
  by (simp add: scenario_not_sidecar scenario_classify scenario_timestamp)

lemma sort_reverse_single: "sort_reverse key [x] = [x]"
  by (simp add: sort_reverse_def)

lemma get_all_memos_member:
  assumes "m \<in> set (get_all_memos d listing)"
  shows "\<not> contains (ascii ''_audio.wav'') (filename m)"
    and "classify (filename m) = Some (memo_type m)"
proof -
  from assms obtain entries where "listing = Some entries" and "m \<in> set (scan_dir d entries)"
    by (cases listing) (simp_all add: get_all_memos_def set_sort_reverse)
  from scan_dir_member [OF this(2)]
  show "\<not> contains (ascii ''_audio.wav'') (filename m)"
    and "classify (filename m) = Some (memo_type m)"
    by auto
qed

text \<open>
  Claim C7.  Every memo \<open>get_all_memos\<close> lists has a name that does not contain, and so
  does not end in, the sidecar suffix \<open>_audio.wav\<close>, and matches the voice pattern (prefix
  \<open>voice_memo\<close>, extension \<open>.wav\<close>) or the video pattern (prefix \<open>video_memo\<close>, extension
  \<open>.mp4\<close>), with the kind of the pattern; the names listed are exactly the names of the
  regular files of the directory that pass both tests.  The list is sorted by time stamp,
  latest first.  In a directory that holds \<open>video_memo_20240101_120000.mp4\<close> (whether or
  not its sidecar \<open>video_memo_20240101_120000_audio.wav\<close> is there too), the records
  listed under these two names are exactly one: the video memo, with the time stamp
  2024-01-01 12:00:00.
\<close>

theorem get_all_memos_listing:
  "(\<forall>m \<in> set (get_all_memos d listing).
       \<not> contains (ascii ''_audio.wav'') (filename m)
     \<and> \<not> endswith (filename m) (ascii ''_audio.wav'')
     \<and> (memo_type m = voice \<and> startswith (filename m) (ascii ''voice_memo'')
            \<and> endswith (filename m) (ascii ''.wav'')
         \<or> memo_type m = video \<and> startswith (filename m) (ascii ''video_memo'')
            \<and> endswith (filename m) (ascii ''.mp4'')))
   \<and> (\<forall>entries. listing = Some entries \<longrightarrow>
         filename ` set (get_all_memos d listing) =
           {d_name e | e. e \<in> set entries \<and> d_isfile e
              \<and> \<not> contains (ascii ''_audio.wav'') (d_name e) \<and> classify (d_name e) \<noteq> None})
   \<and> sorted_wrt (\<lambda>a b. timestamp b \<le> timestamp a) (get_all_memos d listing)
   \<and> (\<forall>entries e. listing = Some entries \<and> distinct (map d_name entries) \<and> e \<in> set entries
           \<and> d_isfile e \<and> d_name e = ascii ''video_memo_20240101_120000.mp4'' \<longrightarrow>
         filter (\<lambda>m. filename m = ascii ''video_memo_20240101_120000.mp4''
                    \<or> filename m = ascii ''video_memo_20240101_120000_audio.wav'')
           (get_all_memos d listing)
         = [\<lparr>filename = ascii ''video_memo_20240101_120000.mp4'',
             filepath = os_path_join d (ascii ''video_memo_20240101_120000.mp4''),
             memo_type = video, timestamp = (2024, 1, 1, 12, 0, 0, 0), fsize = d_size e\<rparr>])"
proof (intro conjI ballI allI impI)
  fix m assume m: "m \<in> set (get_all_memos d listing)"
  from get_all_memos_member [OF m]
  show "\<not> contains (ascii ''_audio.wav'') (filename m)"
    and "\<not> endswith (filename m) (ascii ''_audio.wav'')"
    and "memo_type m = voice \<and> startswith (filename m) (ascii ''voice_memo'')
            \<and> endswith (filename m) (ascii ''.wav'')
         \<or> memo_type m = video \<and> startswith (filename m) (ascii ''video_memo'')
            \<and> endswith (filename m) (ascii ''.mp4'')"
    using endswith_contains [of "filename m" "ascii ''_audio.wav''"]
      classify_cases [of "filename m" "memo_type m"]
    by blast+
next
  fix entries assume "listing = Some entries"
  then show "filename ` set (get_all_memos d listing) =
           {d_name e | e. e \<in> set entries \<and> d_isfile e
              \<and> \<not> contains (ascii ''_audio.wav'') (d_name e) \<and> classify (d_name e) \<noteq> None}"
    by (simp add: get_all_memos_def set_sort_reverse scan_dir_names)
next
  show "sorted_wrt (\<lambda>a b. timestamp b \<le> timestamp a) (get_all_memos d listing)"
    by (cases listing) (simp_all add: get_all_memos_def sort_reverse_descending)
next
  fix entries e
  let ?v = "ascii ''video_memo_20240101_120000.mp4''"
  let ?a = "ascii ''video_memo_20240101_120000_audio.wav''"
  assume h: "listing = Some entries \<and> distinct (map d_name entries) \<and> e \<in> set entries
           \<and> d_isfile e \<and> d_name e = ?v"
  have "filter (\<lambda>m. filename m = ?v \<or> filename m = ?a) (get_all_memos d listing)
      = filter (\<lambda>m. filename m = ?v) (get_all_memos d listing)"
  proof (rule filter_cong [OF refl])
    fix m assume "m \<in> set (get_all_memos d listing)"
    from get_all_memos_member(1) [OF this] scenario_sidecar
    have "filename m \<noteq> ?a" by auto
    then show "(filename m = ?v \<or> filename m = ?a) = (filename m = ?v)" by simp
  qed
  also have "\<dots> = sort_reverse timestamp (scan_dir d (filter (\<lambda>x. d_name x = ?v) entries))"
    using h filter_scan_dir [of "\<lambda>n. n = ?v" d entries]
    by (simp add: get_all_memos_def filter_sort_reverse)
  also have "filter (\<lambda>x. d_name x = ?v) entries = [e]"
    using filter_distinct_name [of entries e] h by simp
  also have "sort_reverse timestamp (scan_dir d [e]) =
      [\<lparr>filename = ?v, filepath = os_path_join d ?v, memo_type = video,
        timestamp = (2024, 1, 1, 12, 0, 0, 0), fsize = d_size e\<rparr>]"
    using h by (simp only: scenario_scan sort_reverse_single)
  finally show "filter (\<lambda>m. filename m = ?v \<or> filename m = ?a) (get_all_memos d listing)
         = [\<lparr>filename = ?v, filepath = os_path_join d ?v, memo_type = video,
             timestamp = (2024, 1, 1, 12, 0, 0, 0), fsize = d_size e\<rparr>]" .
qed


theorem get_all_memos_listing_witness:
  "filter (\<lambda>m. filename m = ascii ''video_memo_20240101_120000.mp4''
              \<or> filename m = ascii ''video_memo_20240101_120000_audio.wav'')
     (get_all_memos (ascii ''memos'') (Some example_listing))
     = [\<lparr>filename = ascii ''video_memo_20240101_120000.mp4'',
         filepath = ascii ''memos/video_memo_20240101_120000.mp4'',
         memo_type = video, timestamp = (2024, 1, 1, 12, 0, 0, 0), fsize = 1048576\<rparr>]
   \<and> ascii ''video_memo_20240101_120000_audio.wav''
        \<notin> filename ` set (get_all_memos (ascii ''memos'') (Some example_listing))
   \<and> ascii ''notes.txt'' \<notin> filename ` set (get_all_memos (ascii ''memos'') (Some example_listing))
   \<and> sorted_wrt (\<lambda>a b. timestamp b \<le> timestamp a)
        (get_all_memos (ascii ''memos'') (Some example_listing))"
proof -
  let ?e = "\<lparr>d_name = ascii ''video_memo_20240101_120000.mp4'', d_isfile = True,
       d_mtime = (2024, 1, 1, 12, 0, 9, 0), d_size = 1048576\<rparr>"
  let ?r = "get_all_memos (ascii ''memos'') (Some example_listing)"
  note spec = get_all_memos_listing [of "ascii ''memos''" "Some example_listing"]
  note listed = spec [THEN conjunct1, rule_format]
  note sorted = spec [THEN conjunct2, THEN conjunct2, THEN conjunct1]
  note pair = spec [THEN conjunct2, THEN conjunct2, THEN conjunct2, rule_format,
      of example_listing ?e]
  have names: "distinct (map d_name example_listing)"
    by (simp add: example_listing_def ascii_def)
  have e: "?e \<in> set example_listing" "d_isfile ?e"
    "d_name ?e = ascii ''video_memo_20240101_120000.mp4''"
    by (simp_all add: example_listing_def)
  have path: "os_path_join (ascii ''memos'') (ascii ''video_memo_20240101_120000.mp4'')
      = ascii ''memos/video_memo_20240101_120000.mp4''"
    by (simp add: os_path_join_def startswith_def endswith_def ascii_def)
  have one: "filter (\<lambda>m. filename m = ascii ''video_memo_20240101_120000.mp4''
              \<or> filename m = ascii ''video_memo_20240101_120000_audio.wav'') ?r
     = [\<lparr>filename = ascii ''video_memo_20240101_120000.mp4'',
         filepath = ascii ''memos/video_memo_20240101_120000.mp4'',
         memo_type = video, timestamp = (2024, 1, 1, 12, 0, 0, 0), fsize = 1048576\<rparr>]"
    using pair names e by (simp add: path)
  have no_sidecar: "ascii ''video_memo_20240101_120000_audio.wav'' \<notin> filename ` set ?r"
  proof
    assume "ascii ''video_memo_20240101_120000_audio.wav'' \<in> filename ` set ?r"
    then obtain m where m: "m \<in> set ?r"
      and n: "filename m = ascii ''video_memo_20240101_120000_audio.wav''"
      by (auto simp: image_iff)
    from listed [OF m] have "\<not> contains (ascii ''_audio.wav'') (filename m)" by (rule conjunct1)
    with scenario_sidecar show False by (simp add: n)
  qed
  have no_notes: "ascii ''notes.txt'' \<notin> filename ` set ?r"
  proof
    assume "ascii ''notes.txt'' \<in> filename ` set ?r"
    then obtain m where m: "m \<in> set ?r" and n: "filename m = ascii ''notes.txt''"
      by (auto simp: image_iff)
    from listed [OF m]
    have "startswith (filename m) (ascii ''voice_memo'') \<or> startswith (filename m) (ascii ''video_memo'')"
      by blast
    then show False
      by (simp add: n startswith_def ascii_def)
  qed
  from one no_sidecar no_notes sorted show ?thesis by (intro conjI)
qed

section \<open>The library models on examples\<close>

lemmas strptime_defs =
  strptime_def format_regex_match_def re_Y_def re_m_def re_d_def re_H_def re_M_def re_S_def
  re_underscore_def alternatives_def int_of_def digit_def char_range_def one_def
  days_in_month_def is_leap_def ascii_def

text \<open>
  The model of \<open>strptime\<close> against the library: single-digit fields are found by
  backtracking, a date the calendar does not have and a second of 60 are rejected, and
  so is text left over after the match.
\<close>

lemma strptime_backtracks:
  "strptime (ascii ''2024111_120000'') = Some (2024, 11, 1, 12, 0, 0, 0)"
  "strptime (ascii ''2024111_1234'') = Some (2024, 11, 1, 12, 3, 4, 0)"
  "strptime (ascii ''20241 1_1234'') = Some (2024, 1, 1, 12, 3, 4, 0)"
  "strptime (ascii ''20240101_2461'') = Some (2024, 1, 1, 2, 46, 1, 0)"
  by (simp_all add: strptime_defs)

lemma strptime_rejects:
  "strptime (ascii ''20240230_120000'') = None"
  "strptime (ascii ''20240229_235960'') = None"
  "strptime (ascii ''20240229_2359591'') = None"
  "strptime (ascii ''00000101_000000'') = None"
  "strptime (ascii ''20241301_000000'') = None"
  "strptime (ascii ''2024101_66'') = None"
  "strptime (ascii ''draft_'') = None"
  by (simp_all add: strptime_defs)

lemma split_examples:
  "split (of_char CHR ''_'') (ascii ''a__b'') = [ascii ''a'', [], ascii ''b'']"
  "split (of_char CHR ''_'') [] = [[]]"
  "split (of_char CHR ''.'') (ascii ''120000.mp4'') = [ascii ''120000'', ascii ''mp4'']"
  by (simp_all add: ascii_def)

lemma replace_examples:
  "replace (ascii ''aa'') (ascii ''b'') (ascii ''aaaa'') = ascii ''bb''"
  "replace [] (ascii ''-'') (ascii ''abc'') = ascii ''-a-b-c-''"
  "replace (ascii ''.mp4'') (ascii ''_audio.wav'') (ascii ''x.mp4.mp4'')
     = ascii ''x_audio.wav_audio.wav''"
  "replace (ascii ''.mp4'') (ascii ''_audio.wav'') (ascii ''voice_memo_1.wav'')
     = ascii ''voice_memo_1.wav''"
  by (simp_all add: replace.simps ascii_def)

lemma os_path_join_examples:
  "os_path_join (ascii ''memos'') (ascii ''a.wav'') = ascii ''memos/a.wav''"
  "os_path_join (ascii ''memos/'') (ascii ''a.wav'') = ascii ''memos/a.wav''"
  "os_path_join [] (ascii ''a.wav'') = ascii ''a.wav''"
  "os_path_join (ascii ''memos'') (ascii ''/a.wav'') = ascii ''/a.wav''"
  by (simp_all add: os_path_join_def startswith_def endswith_def ascii_def)

text \<open>
  What the stop of the audio recorder does outside the round trip: when the record
  loop has died, the buffered chunks are dropped and nothing is returned; when the
  container cannot be written, the error is swallowed and the path is returned all the
  same.
\<close>

lemma audio_stop_after_record_failed:
  "audio_stop_recording (record_failed r, fs) = (None, record_failed r, fs)"
  by (simp add: audio_stop_recording_def record_failed_def)

lemma audio_stop_write_error:
  "is_recording r \<Longrightarrow> frames r \<noteq> [] \<Longrightarrow> current_file r = Some p \<Longrightarrow> p \<noteq> [] \<Longrightarrow>
   p \<in> locked fs \<Longrightarrow>
     audio_stop_recording (r, fs) = (Some p, r\<lparr>is_recording := False\<rparr>, fs)"
  by (simp add: audio_stop_recording_def truthy_def save_wav_def wave_write_def)

section \<open>The coordinator in mid-session: examples\<close>

lemma recording_voice_state:
  "recording_voice =
     (observed_memo
        \<lparr>audio_recorder :=
           \<lparr>save_dir = ascii ''memos'', is_recording = True,
            current_file = Some (ascii ''memos/voice_memo_20240101_120000.wav''),
            frames = [[1, 2]]\<rparr>,
         current_mode := Some voice, called := [on_start voice]\<rparr>,
      empty_fs)"
proof -
  have path: "os_path_join (ascii ''memos'') (ascii ''voice_memo_'' @ ascii ''20240101_120000'' @ ascii ''.wav'')
      = ascii ''memos/voice_memo_20240101_120000.wav''"
    by (simp add: os_path_join_def startswith_def endswith_def ascii_def)
  show ?thesis
    by (simp add: recording_voice_def start_voice_memo_def audio_start_recording_def
        observed_memo_def SmartMirrorMemo_init_def AudioRecorder_init_def record_chunk_def
        Let_def path)
qed

theorem stop_recording_frees_session_witness:
  "current_mode (fst recording_voice) = Some voice
   \<and> fst (stop_recording recording_voice) = Some (ascii ''memos/voice_memo_20240101_120000.wav'')
   \<and> current_mode (fst (snd (stop_recording recording_voice))) = None
   \<and> called (fst (snd (stop_recording recording_voice)))
       = [on_start voice, on_stop voice (Some (ascii ''memos/voice_memo_20240101_120000.wav''))]
   \<and> files (snd (snd (stop_recording recording_voice)))
         (ascii ''memos/voice_memo_20240101_120000.wav'')
       = Some (WavFile \<lparr>nchannels = 1, sampwidth = 2, framerate = 44100, nframes = 1,
                         sample_data = [1, 2]\<rparr>)
   \<and> current_mode (fst recording_video) = Some video
   \<and> fst (stop_recording recording_video) = Some (ascii ''memos/video_memo_20240101_120000.mp4'')
   \<and> current_mode (fst (snd (stop_recording recording_video))) = None
   \<and> called (fst (snd (stop_recording recording_video)))
       = [on_start video, on_stop video (Some (ascii ''memos/video_memo_20240101_120000.mp4''))]"
proof -
  let ?p = "ascii ''memos/voice_memo_20240101_120000.wav''"
  let ?r = "\<lparr>save_dir = ascii ''memos'', is_recording = True, current_file = Some ?p,
            frames = [[1, 2 :: byte]]\<rparr>"
  obtain s f where rv: "recording_voice = (s, f)" by (cases recording_voice) auto
  have s: "audio_recorder s = ?r" "current_mode s = Some voice" "called s = [on_start voice]"
      "on_recording_stop s" and f: "f = empty_fs"
    using rv by (auto simp: recording_voice_state observed_memo_def SmartMirrorMemo_init_def)
  have pne: "?p \<noteq> []" by (simp add: ascii_def)
  have stop_a: "audio_stop_recording (?r, empty_fs) =
      (Some ?p, ?r\<lparr>is_recording := False\<rparr>,
       empty_fs\<lparr>files := (files empty_fs)(?p \<mapsto>
            WavFile \<lparr>nchannels = 1, sampwidth = 2, framerate = 44100,
                     nframes = length (concat (frames ?r)) div 2,
                     sample_data = concat (frames ?r)\<rparr>)\<rparr>)"
    by (rule audio_stop_written) (simp_all add: pne empty_fs_def)
  have voice: "fst (stop_recording (s, f)) = Some ?p
      \<and> current_mode (fst (snd (stop_recording (s, f)))) = None
      \<and> called (fst (snd (stop_recording (s, f)))) = [on_start voice, on_stop voice (Some ?p)]
      \<and> files (snd (snd (stop_recording (s, f)))) ?p
          = Some (WavFile \<lparr>nchannels = 1, sampwidth = 2, framerate = 44100, nframes = 1,
                            sample_data = [1, 2]\<rparr>)"
    using stop_recording_frees_session [of s f] s
    by (simp add: f stop_a)
  let ?q = "ascii ''memos/video_memo_20240101_120000.mp4''"
  obtain s' f' where rw: "recording_video = (s', f')" by (cases recording_video) auto
  have fresh: "\<not> is_recording (VideoRecorder_init (ascii ''memos''))"
    and dir: "save_dir (VideoRecorder_init (ascii ''memos'')) = ascii ''memos''"
    by (simp_all add: VideoRecorder_init_def)
  have vpath: "os_path_join (ascii ''memos'') (ascii ''video_memo_'' @ ascii ''20240101_120000'' @ ascii ''.mp4'')
      = ?q"
    by (simp add: os_path_join_def startswith_def endswith_def ascii_def)
  note start = video_start_fresh [OF fresh, of False None "ascii ''20240101_120000''"
      "ascii ''20240101_120000''" empty_fs, unfolded dir vpath]
  have s': "current_mode s' = Some video" "called s' = [on_start video]" "on_recording_stop s'"
      "is_recording (video_recorder s')" "current_file (video_recorder s') = Some ?q"
    using rw
    by (auto simp: recording_video_def start_video_memo_def observed_memo_def
        SmartMirrorMemo_init_def start Let_def)
  have stop_v: "fst (video_stop_recording (video_recorder s', f')) = Some ?q"
    using video_stop_result [OF s'(4), of f'] s'(5) by simp
  have video: "fst (stop_recording (s', f')) = Some ?q
      \<and> current_mode (fst (snd (stop_recording (s', f')))) = None
      \<and> called (fst (snd (stop_recording (s', f')))) = [on_start video, on_stop video (Some ?q)]"
    using stop_recording_frees_session [of s' f'] s'(1,2,3)
    by (simp add: stop_v)
  show ?thesis
    using voice video s(2) s'(1) by (simp add: rv rw)
qed

end
